theory Spec2Isabelle
  imports Complex_Main "HOL-Library.Word"
begin

section \<open>Data model of the ship render context\<close>

text \<open>
  The embedding follows \<^verbatim>\<open>src/Game/ShipRenderContext.cpp\<close>. One record holds the
  members of the C++ object together with the pieces of its collaborators that the
  member functions write to: the shader manager's program parameters, the shared
  render statistics and the OpenGL state (buffer bindings and the draw calls issued).

  Machine types: \<^verbatim>\<open>PlaneId\<close> is 32 bits wide (the constructor asserts
  \<^verbatim>\<open>sizeof(PlaneId) == sizeof(uint32_t)\<close>), \<^verbatim>\<open>size_t\<close> is 64 bits wide. A
  \<^verbatim>\<open>float\<close> is kept as its 32-bit pattern; no float arithmetic is done on it here.
  Sizes of \<^verbatim>\<open>std::vector\<close>s are list lengths.
\<close>

type_synonym PlaneId = "32 word"
type_synonym ShipId = "32 word"
type_synonym size_t = "64 word"
type_synonym float = "32 word"
type_synonym vec2f = "float \<times> float"
type_synonym vec4f = "float \<times> float \<times> float \<times> float"

type_synonym PointElement = "32 word"
type_synonym SpringElement = "32 word \<times> 32 word"
type_synonym RopeElement = "32 word \<times> 32 word"
type_synonym StressedSpringElement = "32 word \<times> 32 word"
type_synonym TriangleElement = "32 word \<times> 32 word \<times> 32 word"

datatype ShipRenderMode = Structure | Texture

datatype DebugShipRenderMode = None_debug | Wireframe | Points | Springs | EdgeSprings

text \<open>
  The source only compares the vector field mode with its member \<^verbatim>\<open>None\<close>; the other
  members are numbered.
\<close>

datatype VectorFieldRenderMode = None_vector | VectorField nat

datatype ProgramType =
    ShipRopes
  | ShipTrianglesColor
  | ShipTrianglesTexture
  | ShipStressedSprings
  | ShipPointsColor
  | ShipGenericTextures
  | ShipVectors

text \<open>
  \<^verbatim>\<open>ViewModel::CalculateShipOrthoMatrix\<close> is declared outside
  \<^verbatim>\<open>ShipRenderContext.cpp\<close>. The matrix it writes is kept as the call that produced
  it: region start and width, ship index and count, the max-max plane id, layer index
  and layer count.
\<close>

datatype ProjectionMatrix =
  CalculateShipOrthoMatrix
    (shipRegionZStart: rat) (shipRegionZWidth: rat)
    (iShip: int) (nShips: int) (maxPlane: int) (iLayer: int) (nLayers: int)

record ShaderManager =
  ActiveProgram :: "ProgramType option"
  OrthoMatrix :: "ProgramType \<Rightarrow> ProjectionMatrix option"
  OrthoMatrixCalls :: "(ProgramType \<times> ProjectionMatrix) list"

text \<open>The counters of the shared statistics only ever grow; they are unbounded here.\<close>

record RenderStatistics =
  LastRenderedShipPlanes :: nat
  LastRenderedShipSprings :: nat
  LastRenderedShipRopes :: nat
  LastRenderedShipTriangles :: nat
  LastRenderedShipGenericTextures :: nat
  LastRenderedShipEphemeralPoints :: nat

datatype GLBuffer =
    PointColorVBO
  | PointPlaneIdVBO
  | GenericTextureRenderPolygonVertexVBO
  | PointElementVBO
  | SpringElementVBO
  | RopeElementVBO
  | TriangleElementVBO
  | StressedSpringElementVBO
  | EphemeralPointVBO
  | VectorArrowPointPositionVBO

datatype GLTarget = GL_ARRAY_BUFFER | GL_ELEMENT_ARRAY_BUFFER

datatype GLPrimitive = GL_POINTS | GL_LINES | GL_TRIANGLES

text \<open>
  A draw call is recorded with the program active and the buffer bound when it is
  issued, its primitive mode and its element count.
\<close>

datatype DrawCall =
    DrawElements "ProgramType option" "GLBuffer option" GLPrimitive nat
  | DrawArrays "ProgramType option" "GLBuffer option" GLPrimitive nat

record OpenGL =
  ArrayBufferBinding :: "GLBuffer option"
  ElementArrayBufferBinding :: "GLBuffer option"
  VertexAttribArray0 :: bool
  DrawCalls :: "DrawCall list"

text \<open>
  A generic-texture vertex has the three attributes the constructor describes to
  OpenGL: four floats of packed data, two texture coordinates, four more floats.
\<close>

record TextureRenderPolygonVertex =
  PackedData1 :: vec4f
  TextureCoordinates :: vec2f
  PackedData2 :: vec4f

record GenericTextureConnectedComponentData =
  VertexBuffer :: "TextureRenderPolygonVertex list"

record ShipRenderContext =
  mShipId :: ShipId
  mShipCount :: size_t
  mMaxMaxPlaneId :: PlaneId
  mShaderManager :: ShaderManager
  mRenderStatistics :: RenderStatistics
  mShipRenderMode :: ShipRenderMode
  mDebugShipRenderMode :: DebugShipRenderMode
  mVectorFieldRenderMode :: VectorFieldRenderMode
  mShowStressedSprings :: bool
  mPointCount :: size_t
  mPointColorVBO :: "vec4f list"
  mPointPlaneIdVBO :: "PlaneId list"
  mGenericTextureConnectedComponents :: "GenericTextureConnectedComponentData list"
  mGenericTextureMaxVertexBufferSize :: nat
  mGenericTextureAllocatedVertexBufferSize :: nat
  mPointElementBuffer :: "PointElement list"
  mSpringElementBuffer :: "SpringElement list"
  mRopeElementBuffer :: "RopeElement list"
  mTriangleElementBuffer :: "TriangleElement list"
  mStressedSpringElementBuffer :: "StressedSpringElement list"
  mEphemeralPoints :: "PointElement list"
  mVectorArrowPointPositionBuffer :: "vec2f list"
  gl :: OpenGL

datatype error = AssertionFailure | OpenGLError


section \<open>Shader manager and OpenGL calls\<close>

text \<open>
  Every OpenGL call of the source is followed by \<^verbatim>\<open>CheckOpenGLError\<close>, which raises
  when the call has set an error. In this model a call sets an error exactly when it is
  given a range that lies outside its buffer; binding a buffer and drawing do not fail.
\<close>

definition ActivateProgram :: "ProgramType \<Rightarrow> ShipRenderContext \<Rightarrow> ShipRenderContext" where
  "ActivateProgram p s =
     s\<lparr>mShaderManager := (mShaderManager s)\<lparr>ActiveProgram := Some p\<rparr>\<rparr>"

text \<open>
  \<^verbatim>\<open>SetProgramParameter<P, ProgramParameterType::OrthoMatrix>\<close>: stores the matrix
  as the parameter of program \<open>p\<close>; the call is also appended to the manager's log.
\<close>

definition SetProgramParameter_OrthoMatrix ::
  "ProgramType \<Rightarrow> ProjectionMatrix \<Rightarrow> ShipRenderContext \<Rightarrow> ShipRenderContext" where
  "SetProgramParameter_OrthoMatrix p m s =
     s\<lparr>mShaderManager := (mShaderManager s)
         \<lparr>OrthoMatrix := (OrthoMatrix (mShaderManager s))(p \<mapsto> m),
          OrthoMatrixCalls := OrthoMatrixCalls (mShaderManager s) @ [(p, m)]\<rparr>\<rparr>"

definition glBindBuffer :: "GLTarget \<Rightarrow> GLBuffer \<Rightarrow> ShipRenderContext \<Rightarrow> ShipRenderContext" where
  "glBindBuffer target b s =
     (case target of
        GL_ARRAY_BUFFER \<Rightarrow> s\<lparr>gl := (gl s)\<lparr>ArrayBufferBinding := Some b\<rparr>\<rparr>
      | GL_ELEMENT_ARRAY_BUFFER \<Rightarrow> s\<lparr>gl := (gl s)\<lparr>ElementArrayBufferBinding := Some b\<rparr>\<rparr>)"

definition glDrawElements :: "GLPrimitive \<Rightarrow> nat \<Rightarrow> ShipRenderContext \<Rightarrow> ShipRenderContext" where
  "glDrawElements mode n s =
     s\<lparr>gl := (gl s)\<lparr>DrawCalls := DrawCalls (gl s) @
         [DrawElements (ActiveProgram (mShaderManager s))
            (ElementArrayBufferBinding (gl s)) mode n]\<rparr>\<rparr>"

definition glDrawArrays :: "GLPrimitive \<Rightarrow> nat \<Rightarrow> ShipRenderContext \<Rightarrow> ShipRenderContext" where
  "glDrawArrays mode n s =
     s\<lparr>gl := (gl s)\<lparr>DrawCalls := DrawCalls (gl s) @
         [DrawArrays (ActiveProgram (mShaderManager s))
            (ArrayBufferBinding (gl s)) mode n]\<rparr>\<rparr>"


section \<open>Depth-layer projection\<close>

text \<open>
  \<^verbatim>\<open>static_cast<int>\<close> of an unsigned value: the low 32 bits, read as two's
  complement.
\<close>

definition static_cast_int :: "'a::len word \<Rightarrow> int" where
  "static_cast_int w = sint (ucast w :: 32 word)"

definition ShipRegionZStart :: rat where
  "ShipRegionZStart = 1"

definition ShipRegionZWidth :: rat where
  "ShipRegionZWidth = - 2"

definition NLayers :: int where
  "NLayers = 6"

text \<open>The matrix \<^verbatim>\<open>UpdateOrthoMatrices\<close> asks the view model for, for one layer.\<close>

definition shipOrthoMatrix :: "ShipRenderContext \<Rightarrow> int \<Rightarrow> ProjectionMatrix" where
  "shipOrthoMatrix s layer =
     CalculateShipOrthoMatrix ShipRegionZStart ShipRegionZWidth
       (static_cast_int (mShipId s)) (static_cast_int (mShipCount s))
       (static_cast_int (mMaxMaxPlaneId s)) layer NLayers"

definition UpdateOrthoMatrices :: "ShipRenderContext \<Rightarrow> ShipRenderContext" where
  "UpdateOrthoMatrices s =
     (let s0 = SetProgramParameter_OrthoMatrix ShipRopes (shipOrthoMatrix s 0)
                 (ActivateProgram ShipRopes s);
          s1 = SetProgramParameter_OrthoMatrix ShipTrianglesColor (shipOrthoMatrix s 1)
                 (ActivateProgram ShipTrianglesColor s0);
          s1' = SetProgramParameter_OrthoMatrix ShipTrianglesTexture (shipOrthoMatrix s 1)
                 (ActivateProgram ShipTrianglesTexture s1);
          s2 = SetProgramParameter_OrthoMatrix ShipStressedSprings (shipOrthoMatrix s 2)
                 (ActivateProgram ShipStressedSprings s1');
          s3 = SetProgramParameter_OrthoMatrix ShipPointsColor (shipOrthoMatrix s 3)
                 (ActivateProgram ShipPointsColor s2);
          s4 = SetProgramParameter_OrthoMatrix ShipGenericTextures (shipOrthoMatrix s 4)
                 (ActivateProgram ShipGenericTextures s3)
      in SetProgramParameter_OrthoMatrix ShipVectors (shipOrthoMatrix s 5)
           (ActivateProgram ShipVectors s4))"

text \<open>
  The seven parameter calls of one pass of \<^verbatim>\<open>UpdateOrthoMatrices\<close>: one matrix per
  layer 0 to 5, layer 1 going to both triangle programs.
\<close>

definition orthoMatrixPass :: "ShipRenderContext \<Rightarrow> (ProgramType \<times> ProjectionMatrix) list" where
  "orthoMatrixPass s =
     [(ShipRopes, shipOrthoMatrix s 0),
      (ShipTrianglesColor, shipOrthoMatrix s 1),
      (ShipTrianglesTexture, shipOrthoMatrix s 1),
      (ShipStressedSprings, shipOrthoMatrix s 2),
      (ShipPointsColor, shipOrthoMatrix s 3),
      (ShipGenericTextures, shipOrthoMatrix s 4),
      (ShipVectors, shipOrthoMatrix s 5)]"

text \<open>
  Modelled from the spec: \<^verbatim>\<open>OnViewModelUpdated\<close> is defined in the class header,
  which is not among the sources. Sections 4.1 and 4.4 of the specification say that
  it recomputes the depth-layer matrices.
\<close>

definition OnViewModelUpdated :: "ShipRenderContext \<Rightarrow> ShipRenderContext" where
  "OnViewModelUpdated s = UpdateOrthoMatrices s"


section \<open>Uploads\<close>

definition sizeof_PlaneId :: size_t where
  "sizeof_PlaneId = 4"

text \<open>
  A pointer to an array is a function from index to element. The upload of plane ids
  starts at offset 0 and has the very size expression the constructor allocated the
  buffer with, \<^verbatim>\<open>mPointCount * sizeof(PlaneId)\<close> bytes, so it replaces the whole
  buffer and OpenGL accepts it.
\<close>

definition UploadPointPlaneIds ::
  "(nat \<Rightarrow> PlaneId) \<Rightarrow> PlaneId \<Rightarrow> ShipRenderContext \<Rightarrow> ShipRenderContext" where
  "UploadPointPlaneIds planeId maxMaxPlaneId s =
     (let s1 = (glBindBuffer GL_ARRAY_BUFFER PointPlaneIdVBO s)
                 \<lparr>mPointPlaneIdVBO :=
                    map planeId [0..<unat (mPointCount s * sizeof_PlaneId) div 4]\<rparr>
      in if maxMaxPlaneId \<noteq> mMaxMaxPlaneId s1
         then OnViewModelUpdated (s1\<lparr>mMaxMaxPlaneId := maxMaxPlaneId\<rparr>)
         else s1)"

text \<open>A \<^verbatim>\<open>vec4f\<close> is four floats, as the constructor describes the colour attribute.\<close>

definition sizeof_vec4f :: size_t where
  "sizeof_vec4f = 16"

text \<open>
  \<^verbatim>\<open>glBufferSubData\<close> on a buffer of \<^verbatim>\<open>vec4f\<close> slots, followed by
  \<^verbatim>\<open>CheckOpenGLError\<close>. Offset and size are in bytes and reach OpenGL as signed 64-bit
  values (\<^verbatim>\<open>GLintptr\<close>, \<^verbatim>\<open>GLsizeiptr\<close>). OpenGL raises \<^verbatim>\<open>GL_INVALID_VALUE\<close> and
  writes nothing when either is negative or when offset plus size exceeds the size of
  the buffer; \<^verbatim>\<open>CheckOpenGLError\<close> turns that into an exception. Otherwise the bytes
  from offset on are overwritten. The callers pass multiples of
  \<^verbatim>\<open>sizeof(vec4f)\<close>, so whole slots are overwritten.
\<close>

definition glBufferSubData_vec4f ::
  "size_t \<Rightarrow> size_t \<Rightarrow> (nat \<Rightarrow> vec4f) \<Rightarrow> vec4f list \<Rightarrow> error + vec4f list" where
  "glBufferSubData_vec4f offset nbytes src buf =
     (if sint offset < 0 \<or> sint nbytes < 0 \<or> int (16 * length buf) < sint offset + sint nbytes
      then Inl OpenGLError
      else Inr (map (\<lambda>i. if unat offset div 16 \<le> i \<and> i < unat offset div 16 + unat nbytes div 16
                          then src (i - unat offset div 16) else buf ! i)
                  [0..<length buf]))"

text \<open>
  The \<^verbatim>\<open>assert\<close> is the one of a debug build; its sum is a \<^verbatim>\<open>size_t\<close> sum and
  wraps around like the source's.
\<close>

definition UploadShipPointColorRange ::
  "(nat \<Rightarrow> vec4f) \<Rightarrow> size_t \<Rightarrow> size_t \<Rightarrow> ShipRenderContext \<Rightarrow> error + ShipRenderContext" where
  "UploadShipPointColorRange color startIndex count s =
     (if \<not> (startIndex + count \<le> mPointCount s) then Inl AssertionFailure
      else
        (case glBufferSubData_vec4f (startIndex * sizeof_vec4f) (count * sizeof_vec4f)
                color (mPointColorVBO s) of
           Inl e \<Rightarrow> Inl e
         | Inr buf \<Rightarrow> Inr ((glBindBuffer GL_ARRAY_BUFFER PointColorVBO s)\<lparr>mPointColorVBO := buf\<rparr>)))"

text \<open>
  The colour buffer as the constructor allocates it, for a point count whose size in
  bytes is representable as a \<^verbatim>\<open>GLsizeiptr\<close>: \<^verbatim>\<open>pointCount * sizeof(vec4f)\<close> bytes,
  one slot per point. No member function resizes it.
\<close>

definition PointColorVBO_allocated :: "ShipRenderContext \<Rightarrow> bool" where
  "PointColorVBO_allocated s \<longleftrightarrow>
     length (mPointColorVBO s) = unat (mPointCount s) \<and> 16 * unat (mPointCount s) < 2 ^ 63"


section \<open>Frame start and the generic-texture batch\<close>

definition RenderStart :: "ShipRenderContext \<Rightarrow> ShipRenderContext" where
  "RenderStart s =
     s\<lparr>mGenericTextureConnectedComponents :=
          replicate (unat (mMaxMaxPlaneId s + 1000)) \<lparr>VertexBuffer = []\<rparr>,
        mGenericTextureMaxVertexBufferSize := 0\<rparr>"

text \<open>
  Modelled from the spec: the upload that fills the generic-texture batch during a
  frame is defined in the class header, which is not among the sources. Section 4.3 of
  the specification: the caller appends one component with an externally supplied
  vertex sequence; section 3: a global tracker holds the peak vertex-buffer size.
\<close>

definition UploadGenericTextureComponent ::
  "TextureRenderPolygonVertex list \<Rightarrow> ShipRenderContext \<Rightarrow> ShipRenderContext" where
  "UploadGenericTextureComponent vertices s =
     s\<lparr>mGenericTextureConnectedComponents :=
          mGenericTextureConnectedComponents s @ [\<lparr>VertexBuffer = vertices\<rparr>],
        mGenericTextureMaxVertexBufferSize :=
          max (mGenericTextureMaxVertexBufferSize s) (length vertices)\<rparr>"


section \<open>Drawing\<close>

text \<open>
  The render functions are followed statement by statement, except for
  \<^verbatim>\<open>glLineWidth\<close>, \<^verbatim>\<open>glPointSize\<close> and the texture bindings: they set float-valued
  rasteriser state and texture units that no draw call's recorded data depends on.
  The assertions on the ship texture hold, since the constructor creates the texture.
  Element counts are list lengths; the cast to \<^verbatim>\<open>GLsizei\<close> is not applied.
\<close>

definition RenderPointElements :: "ShipRenderContext \<Rightarrow> ShipRenderContext" where
  "RenderPointElements s =
     glDrawElements GL_POINTS (1 * length (mPointElementBuffer s))
       (glBindBuffer GL_ELEMENT_ARRAY_BUFFER PointElementVBO
         (ActivateProgram ShipPointsColor s))"

definition RenderSpringElements :: "bool \<Rightarrow> ShipRenderContext \<Rightarrow> ShipRenderContext" where
  "RenderSpringElements withTexture s =
     (let s1 = (if withTexture then ActivateProgram ShipTrianglesTexture s
                else ActivateProgram ShipTrianglesColor s);
          s2 = glBindBuffer GL_ELEMENT_ARRAY_BUFFER SpringElementVBO s1;
          s3 = glDrawElements GL_LINES (2 * length (mSpringElementBuffer s2)) s2
      in s3\<lparr>mRenderStatistics := (mRenderStatistics s3)
             \<lparr>LastRenderedShipSprings :=
                LastRenderedShipSprings (mRenderStatistics s3)
                  + length (mSpringElementBuffer s3)\<rparr>\<rparr>)"

definition RenderRopeElements :: "ShipRenderContext \<Rightarrow> ShipRenderContext" where
  "RenderRopeElements s =
     (let s1 = ActivateProgram ShipRopes s;
          s2 = glBindBuffer GL_ELEMENT_ARRAY_BUFFER RopeElementVBO s1;
          s3 = glDrawElements GL_LINES (2 * length (mRopeElementBuffer s2)) s2
      in s3\<lparr>mRenderStatistics := (mRenderStatistics s3)
             \<lparr>LastRenderedShipRopes :=
                LastRenderedShipRopes (mRenderStatistics s3)
                  + length (mRopeElementBuffer s3)\<rparr>\<rparr>)"

definition RenderTriangleElements :: "bool \<Rightarrow> ShipRenderContext \<Rightarrow> ShipRenderContext" where
  "RenderTriangleElements withTexture s =
     (let s1 = (if withTexture then ActivateProgram ShipTrianglesTexture s
                else ActivateProgram ShipTrianglesColor s);
          s2 = glBindBuffer GL_ELEMENT_ARRAY_BUFFER TriangleElementVBO s1;
          s3 = glDrawElements GL_TRIANGLES (3 * length (mTriangleElementBuffer s2)) s2
      in s3\<lparr>mRenderStatistics := (mRenderStatistics s3)
             \<lparr>LastRenderedShipTriangles :=
                LastRenderedShipTriangles (mRenderStatistics s3)
                  + length (mTriangleElementBuffer s3)\<rparr>\<rparr>)"

definition RenderStressedSpringElements :: "ShipRenderContext \<Rightarrow> ShipRenderContext" where
  "RenderStressedSpringElements s =
     (if mStressedSpringElementBuffer s \<noteq> []
      then glDrawElements GL_LINES (2 * length (mStressedSpringElementBuffer s))
             (glBindBuffer GL_ELEMENT_ARRAY_BUFFER StressedSpringElementVBO
               (ActivateProgram ShipStressedSprings s))
      else s)"

definition RenderEphemeralPoints :: "ShipRenderContext \<Rightarrow> ShipRenderContext" where
  "RenderEphemeralPoints s =
     (if mEphemeralPoints s \<noteq> []
      then (let s1 = ActivateProgram ShipPointsColor s;
                s2 = glBindBuffer GL_ELEMENT_ARRAY_BUFFER EphemeralPointVBO s1;
                s3 = glDrawElements GL_POINTS (length (mEphemeralPoints s2)) s2
            in s3\<lparr>mRenderStatistics := (mRenderStatistics s3)
                   \<lparr>LastRenderedShipEphemeralPoints :=
                      LastRenderedShipEphemeralPoints (mRenderStatistics s3)
                        + length (mEphemeralPoints s3)\<rparr>\<rparr>)
      else s)"

definition RenderVectors :: "ShipRenderContext \<Rightarrow> ShipRenderContext" where
  "RenderVectors s =
     (let s1 = ActivateProgram ShipVectors s;
          s2 = glBindBuffer GL_ARRAY_BUFFER VectorArrowPointPositionVBO s1;
          s3 = s2\<lparr>gl := (gl s2)\<lparr>VertexAttribArray0 := True\<rparr>\<rparr>
      in glDrawArrays GL_LINES (length (mVectorArrowPointPositionBuffer s3)) s3)"

text \<open>
  An exception leaves the object in the state it had when it was raised: the result of
  a render function that can raise is either that state with the error, or the final
  state.

  \<^verbatim>\<open>RenderGenericTextures\<close> reallocates the vertex buffer to the tracked maximum
  whenever the allocated size differs from it, then uploads the component's vertices
  from offset 0. OpenGL rejects the upload when the vertices do not fit the buffer.
\<close>

type_synonym RenderResult = "(error \<times> ShipRenderContext) + ShipRenderContext"

definition RenderGenericTextures ::
  "GenericTextureConnectedComponentData \<Rightarrow> ShipRenderContext \<Rightarrow> RenderResult" where
  "RenderGenericTextures connectedComponent s =
     (if VertexBuffer connectedComponent \<noteq> []
      then
        (let s1 = glBindBuffer GL_ARRAY_BUFFER GenericTextureRenderPolygonVertexVBO s;
             s2 = (if mGenericTextureAllocatedVertexBufferSize s1
                        \<noteq> mGenericTextureMaxVertexBufferSize s1
                   then s1\<lparr>mGenericTextureAllocatedVertexBufferSize :=
                             mGenericTextureMaxVertexBufferSize s1\<rparr>
                   else s1)
         in if mGenericTextureAllocatedVertexBufferSize s2
                 < length (VertexBuffer connectedComponent)
            then Inl (OpenGLError, s2)
            else
              (let s3 = ActivateProgram ShipGenericTextures s2;
                   s4 = glDrawArrays GL_TRIANGLES (length (VertexBuffer connectedComponent)) s3
               in Inr (s4\<lparr>mRenderStatistics := (mRenderStatistics s4)
                           \<lparr>LastRenderedShipGenericTextures :=
                              LastRenderedShipGenericTextures (mRenderStatistics s4)
                                + length (VertexBuffer connectedComponent) div 6\<rparr>\<rparr>)))
      else Inr s)"

text \<open>The loop of \<^verbatim>\<open>RenderEnd\<close> over the connected components, stopped by an exception.\<close>

fun RenderGenericTextures_loop ::
  "GenericTextureConnectedComponentData list \<Rightarrow> ShipRenderContext \<Rightarrow> RenderResult" where
  "RenderGenericTextures_loop [] s = Inr s"
| "RenderGenericTextures_loop (c # cs) s =
     (case RenderGenericTextures c s of
        Inl e \<Rightarrow> Inl e
      | Inr s' \<Rightarrow> RenderGenericTextures_loop cs s')"

text \<open>
  A statement \<^verbatim>\<open>if (c) f();\<close> on the object, and a sequence of statements run in
  order.
\<close>

definition if_then ::
  "(ShipRenderContext \<Rightarrow> bool) \<Rightarrow> (ShipRenderContext \<Rightarrow> ShipRenderContext)
     \<Rightarrow> ShipRenderContext \<Rightarrow> ShipRenderContext" where
  "if_then c f s = (if c s then f s else s)"

definition statements ::
  "(ShipRenderContext \<Rightarrow> ShipRenderContext) list \<Rightarrow> ShipRenderContext \<Rightarrow> ShipRenderContext" where
  "statements stmts s = fold (\<lambda>stmt s'. stmt s') stmts s"

definition glDisableVertexAttribArray0 :: "ShipRenderContext \<Rightarrow> ShipRenderContext" where
  "glDisableVertexAttribArray0 s = s\<lparr>gl := (gl s)\<lparr>VertexAttribArray0 := False\<rparr>\<rparr>"

text \<open>
  \<^verbatim>\<open>RenderEnd\<close>, from \<^verbatim>\<open>glDisableVertexAttribArray(0)\<close> to the call of
  \<^verbatim>\<open>RenderEphemeralPoints\<close>: the draws of the element buffers, none of which can
  raise. Every condition reads the members at the point where the source tests them.
\<close>

definition RenderEnd_elements :: "ShipRenderContext \<Rightarrow> ShipRenderContext" where
  "RenderEnd_elements =
     statements
      [glDisableVertexAttribArray0,
       if_then (\<lambda>s. mDebugShipRenderMode s = Points) RenderPointElements,
       if_then (\<lambda>s. mDebugShipRenderMode s = Wireframe
                   \<or> (mDebugShipRenderMode s = None_debug
                       \<and> (mShipRenderMode s = Structure \<or> mShipRenderMode s = Texture)))
         (\<lambda>s. RenderTriangleElements (mShipRenderMode s = Texture) s),
       if_then (\<lambda>s. mDebugShipRenderMode s \<noteq> None_debug \<or> mShipRenderMode s \<noteq> Structure)
         RenderRopeElements,
       if_then (\<lambda>s. mDebugShipRenderMode s = Springs
                   \<or> mDebugShipRenderMode s = EdgeSprings
                   \<or> (mDebugShipRenderMode s = None_debug
                       \<and> (mShipRenderMode s = Structure \<or> mShipRenderMode s = Texture)))
         (\<lambda>s. RenderSpringElements
                (mDebugShipRenderMode s = None_debug \<and> mShipRenderMode s = Texture) s),
       if_then (\<lambda>s. mDebugShipRenderMode s = None_debug \<and> mShipRenderMode s = Structure)
         RenderRopeElements,
       if_then (\<lambda>s. mDebugShipRenderMode s = None_debug \<and> mShowStressedSprings s)
         RenderStressedSpringElements,
       RenderEphemeralPoints]"

text \<open>
  \<^verbatim>\<open>RenderEnd\<close>: the element draws, the loop over the generic-texture components,
  the vector overlay and the statistics update.
\<close>

definition RenderEnd :: "ShipRenderContext \<Rightarrow> RenderResult" where
  "RenderEnd s =
     (let s7 = RenderEnd_elements s
      in case RenderGenericTextures_loop (mGenericTextureConnectedComponents s7) s7 of
           Inl e \<Rightarrow> Inl e
         | Inr s8 \<Rightarrow>
             (let s9 = (if mVectorFieldRenderMode s8 \<noteq> None_vector
                        then RenderVectors s8 else s8)
              in Inr (s9\<lparr>mRenderStatistics := (mRenderStatistics s9)
                          \<lparr>LastRenderedShipPlanes :=
                             LastRenderedShipPlanes (mRenderStatistics s9)
                               + unat (mMaxMaxPlaneId s9 + 1)\<rparr>\<rparr>)))"

text \<open>The object after a render call, whether it returned or raised.\<close>

fun stateAfter :: "RenderResult \<Rightarrow> ShipRenderContext" where
  "stateAfter (Inl (e, s)) = s"
| "stateAfter (Inr s) = s"

text \<open>The draw calls a render call added to those issued before it.\<close>

definition issuedDraws :: "ShipRenderContext \<Rightarrow> RenderResult \<Rightarrow> DrawCall list" where
  "issuedDraws s r = drop (length (DrawCalls (gl s))) (DrawCalls (gl (stateAfter r)))"

fun isRopeDraw :: "DrawCall \<Rightarrow> bool" where
  "isRopeDraw (DrawElements p b m n) = (b = Some RopeElementVBO)"
| "isRopeDraw (DrawArrays p b m n) = False"

fun isSpringDraw :: "DrawCall \<Rightarrow> bool" where
  "isSpringDraw (DrawElements p b m n) = (b = Some SpringElementVBO)"
| "isSpringDraw (DrawArrays p b m n) = False"

fun isPointDraw :: "DrawCall \<Rightarrow> bool" where
  "isPointDraw (DrawElements p b m n) = (b = Some PointElementVBO)"
| "isPointDraw (DrawArrays p b m n) = False"


text \<open>
  The members the render functions read and never write: the modes, the max-max plane
  id, the element buffers, the vector buffer, the generic-texture components and their
  size tracker.
\<close>

definition sameScene :: "ShipRenderContext \<Rightarrow> ShipRenderContext \<Rightarrow> bool" where
  "sameScene s s' \<longleftrightarrow>
     mMaxMaxPlaneId s' = mMaxMaxPlaneId s
   \<and> mShipRenderMode s' = mShipRenderMode s
   \<and> mDebugShipRenderMode s' = mDebugShipRenderMode s
   \<and> mVectorFieldRenderMode s' = mVectorFieldRenderMode s
   \<and> mShowStressedSprings s' = mShowStressedSprings s
   \<and> mGenericTextureConnectedComponents s' = mGenericTextureConnectedComponents s
   \<and> mGenericTextureMaxVertexBufferSize s' = mGenericTextureMaxVertexBufferSize s
   \<and> mPointElementBuffer s' = mPointElementBuffer s
   \<and> mSpringElementBuffer s' = mSpringElementBuffer s
   \<and> mRopeElementBuffer s' = mRopeElementBuffer s
   \<and> mTriangleElementBuffer s' = mTriangleElementBuffer s
   \<and> mStressedSpringElementBuffer s' = mStressedSpringElementBuffer s
   \<and> mEphemeralPoints s' = mEphemeralPoints s
   \<and> mVectorArrowPointPositionBuffer s' = mVectorArrowPointPositionBuffer s"

text \<open>One frame of the generic-texture batch: start, the uploads, the draws.\<close>

definition RenderFrame ::
  "TextureRenderPolygonVertex list list \<Rightarrow> ShipRenderContext \<Rightarrow> RenderResult" where
  "RenderFrame uploads s =
     RenderEnd (foldl (\<lambda>s' vertices. UploadGenericTextureComponent vertices s')
                  (RenderStart s) uploads)"


section \<open>Depth slots\<close>

text \<open>
  Modelled from the spec: \<^verbatim>\<open>ViewModel::CalculateShipOrthoMatrix\<close> is not among the
  sources. Section 4.4 of the specification: one shared depth range is partitioned into
  \<open>shipCount \<times> (maxMaxPlaneId + 1) \<times> 6\<close> equal depth slots, six layers per depth plane;
  glossary: the matrix assigns a ship, layer and plane combination to a position along
  the shared depth axis. \<open>depthOf m p\<close> is the position the matrix \<open>m\<close> gives to plane
  \<open>p\<close>: the start of the slot of that ship, plane and layer.
\<close>

fun depthOf :: "ProjectionMatrix \<Rightarrow> int \<Rightarrow> rat" where
  "depthOf (CalculateShipOrthoMatrix zStart zWidth ship ships maxMaxPlane layer layers) planeId =
     zStart + zWidth * of_int ((ship * (maxMaxPlane + 1) + planeId) * layers + layer)
                / of_int (ships * (maxMaxPlane + 1) * layers)"


section \<open>Example contexts\<close>

text \<open>
  The ship of the end-to-end scenario of the specification: 4 points, 3 springs,
  1 triangle, no ropes, render mode Structure, no debug mode, stressed springs off.
\<close>

definition exampleShip :: ShipRenderContext where
  "exampleShip =
     \<lparr>mShipId = 0, mShipCount = 1, mMaxMaxPlaneId = 0,
      mShaderManager = \<lparr>ActiveProgram = None, OrthoMatrix = Map.empty, OrthoMatrixCalls = []\<rparr>,
      mRenderStatistics =
        \<lparr>LastRenderedShipPlanes = 0, LastRenderedShipSprings = 0, LastRenderedShipRopes = 0,
         LastRenderedShipTriangles = 0, LastRenderedShipGenericTextures = 0,
         LastRenderedShipEphemeralPoints = 0\<rparr>,
      mShipRenderMode = Structure, mDebugShipRenderMode = None_debug,
      mVectorFieldRenderMode = None_vector, mShowStressedSprings = False,
      mPointCount = 4,
      mPointColorVBO = [(0, 0, 0, 0), (0, 0, 0, 0), (0, 0, 0, 0), (0, 0, 0, 0)],
      mPointPlaneIdVBO = [0, 0, 0, 0],
      mGenericTextureConnectedComponents = [],
      mGenericTextureMaxVertexBufferSize = 0,
      mGenericTextureAllocatedVertexBufferSize = 0,
      mPointElementBuffer = [0, 1, 2, 3],
      mSpringElementBuffer = [(0, 1), (1, 2), (2, 0)],
      mRopeElementBuffer = [],
      mTriangleElementBuffer = [(0, 1, 2)],
      mStressedSpringElementBuffer = [],
      mEphemeralPoints = [],
      mVectorArrowPointPositionBuffer = [],
      gl = \<lparr>ArrayBufferBinding = None, ElementArrayBufferBinding = None,
            VertexAttribArray0 = False, DrawCalls = []\<rparr>\<rparr>"

definition exampleVertex :: TextureRenderPolygonVertex where
  "exampleVertex =
     \<lparr>PackedData1 = (0, 0, 0, 0), TextureCoordinates = (0, 0), PackedData2 = (0, 0, 0, 0)\<rparr>"

definition examplePlaneIds :: "nat \<Rightarrow> PlaneId" where
  "examplePlaneIds i = 0"

text \<open>The example ship after its max-max plane id has reached 5.\<close>

definition exampleShipAtPlane5 :: ShipRenderContext where
  "exampleShipAtPlane5 = exampleShip\<lparr>mMaxMaxPlaneId := 5\<rparr>"

text \<open>The example ship with two ropes attached.\<close>

definition exampleShipWithRopes :: ShipRenderContext where
  "exampleShipWithRopes = exampleShip\<lparr>mRopeElementBuffer := [(0, 3), (3, 1)]\<rparr>"

text \<open>
  Two frames of the example ship: the first uploads one component of 12 vertices, the
  second one component of 6 vertices.
\<close>

definition exampleAfterFrame1 :: ShipRenderContext where
  "exampleAfterFrame1 = stateAfter (RenderFrame [replicate 12 exampleVertex] exampleShip)"

definition exampleAfterFrame2 :: ShipRenderContext where
  "exampleAfterFrame2 = stateAfter (RenderFrame [replicate 6 exampleVertex] exampleAfterFrame1)"

text \<open>An array of colours: opaque red, as bit patterns of \<open>1.0f\<close> and \<open>0.0f\<close>.\<close>

definition exampleColors :: "nat \<Rightarrow> vec4f" where
  "exampleColors i = (1065353216, 0, 0, 1065353216)"


section \<open>Plane ids and the recomputation of the depth-layer matrices\<close>

lemma UpdateOrthoMatrices_calls:
  "OrthoMatrixCalls (mShaderManager (UpdateOrthoMatrices s)) =
     OrthoMatrixCalls (mShaderManager s) @ orthoMatrixPass s"
  by (simp add: UpdateOrthoMatrices_def orthoMatrixPass_def SetProgramParameter_OrthoMatrix_def
        ActivateProgram_def Let_def)

lemma UpdateOrthoMatrices_mMaxMaxPlaneId:
  "mMaxMaxPlaneId (UpdateOrthoMatrices s) = mMaxMaxPlaneId s"
  by (simp add: UpdateOrthoMatrices_def SetProgramParameter_OrthoMatrix_def
        ActivateProgram_def Let_def)

lemma orthoMatrixPass_cong:
  "mShipId s' = mShipId s \<Longrightarrow> mShipCount s' = mShipCount s
     \<Longrightarrow> mMaxMaxPlaneId s' = mMaxMaxPlaneId s \<Longrightarrow> orthoMatrixPass s' = orthoMatrixPass s"
  by (simp add: orthoMatrixPass_def shipOrthoMatrix_def)

text \<open>
  C1, as the code has it. \<^verbatim>\<open>UploadPointPlaneIds\<close> compares the supplied max-max plane
  id with the stored one by \<^verbatim>\<open>!=\<close>. A call whose supplied value differs from the stored
  one, larger or smaller, adds exactly one pass of \<^verbatim>\<open>UpdateOrthoMatrices\<close> to the
  shader manager's parameter calls: the matrices of the six layers 0 to 5, computed for
  the supplied value. A call that supplies the stored value adds no call. This holds
  from every state, so along every sequence of calls.
\<close>

theorem UploadPointPlaneIds_recomputes_on_change:
  "OrthoMatrixCalls (mShaderManager (UploadPointPlaneIds planeId maxMaxPlaneId s)) =
     OrthoMatrixCalls (mShaderManager s) @
       (if maxMaxPlaneId \<noteq> mMaxMaxPlaneId s
        then orthoMatrixPass (s\<lparr>mMaxMaxPlaneId := maxMaxPlaneId\<rparr>) else [])
   \<and> map (\<lambda>(p, m). iLayer m) (orthoMatrixPass (s\<lparr>mMaxMaxPlaneId := maxMaxPlaneId\<rparr>))
       = [0, 1, 1, 2, 3, 4, 5]"
proof
  let ?s1 = "(glBindBuffer GL_ARRAY_BUFFER PointPlaneIdVBO s)
               \<lparr>mPointPlaneIdVBO :=
                  map planeId [0..<unat (mPointCount s * sizeof_PlaneId) div 4]\<rparr>"
  have calls: "OrthoMatrixCalls (mShaderManager ?s1) = OrthoMatrixCalls (mShaderManager s)"
    and stored: "mMaxMaxPlaneId ?s1 = mMaxMaxPlaneId s"
    by (simp_all add: glBindBuffer_def)
  have pass: "orthoMatrixPass (?s1\<lparr>mMaxMaxPlaneId := maxMaxPlaneId\<rparr>)
                = orthoMatrixPass (s\<lparr>mMaxMaxPlaneId := maxMaxPlaneId\<rparr>)"
    by (rule orthoMatrixPass_cong) (simp_all add: glBindBuffer_def)
  show "OrthoMatrixCalls (mShaderManager (UploadPointPlaneIds planeId maxMaxPlaneId s)) =
     OrthoMatrixCalls (mShaderManager s) @
       (if maxMaxPlaneId \<noteq> mMaxMaxPlaneId s
        then orthoMatrixPass (s\<lparr>mMaxMaxPlaneId := maxMaxPlaneId\<rparr>) else [])"
  proof (cases "maxMaxPlaneId = mMaxMaxPlaneId s")
    case True
    then show ?thesis
      using calls stored by (simp add: UploadPointPlaneIds_def Let_def)
  next
    case False
    then have "UploadPointPlaneIds planeId maxMaxPlaneId s
                 = UpdateOrthoMatrices (?s1\<lparr>mMaxMaxPlaneId := maxMaxPlaneId\<rparr>)"
      using stored by (simp add: UploadPointPlaneIds_def OnViewModelUpdated_def Let_def)
    then show ?thesis
      using False pass calls by (simp add: UpdateOrthoMatrices_calls)
  qed
  show "map (\<lambda>(p, m). iLayer m) (orthoMatrixPass (s\<lparr>mMaxMaxPlaneId := maxMaxPlaneId\<rparr>))
          = [0, 1, 1, 2, 3, 4, 5]"
    by (simp add: orthoMatrixPass_def shipOrthoMatrix_def)
qed

theorem UploadPointPlaneIds_recomputes_on_change_witness:
  "OrthoMatrixCalls (mShaderManager (UploadPointPlaneIds examplePlaneIds 7 exampleShip))
     = orthoMatrixPass (exampleShip\<lparr>mMaxMaxPlaneId := 7\<rparr>)
   \<and> OrthoMatrixCalls (mShaderManager (UploadPointPlaneIds examplePlaneIds 0 exampleShip)) = []"
  using UploadPointPlaneIds_recomputes_on_change [of examplePlaneIds 7 exampleShip]
    UploadPointPlaneIds_recomputes_on_change [of examplePlaneIds 0 exampleShip]
  by (simp add: exampleShip_def)

text \<open>
  C1 as stated fails: with 5 stored, a call that supplies the smaller value 3 does
  recompute. No parameter call had been made before it, seven have been made after it.
\<close>

theorem UploadPointPlaneIds_smaller_value_recomputes:
  "(3 :: PlaneId) < mMaxMaxPlaneId exampleShipAtPlane5
   \<and> OrthoMatrixCalls (mShaderManager exampleShipAtPlane5) = []
   \<and> length (OrthoMatrixCalls (mShaderManager
        (UploadPointPlaneIds examplePlaneIds 3 exampleShipAtPlane5))) = 7"
  by (simp add: exampleShipAtPlane5_def exampleShip_def UploadPointPlaneIds_def
        OnViewModelUpdated_def UpdateOrthoMatrices_calls orthoMatrixPass_def
        glBindBuffer_def Let_def)

text \<open>
  C4, as the code has it. After every call of \<^verbatim>\<open>UploadPointPlaneIds\<close> the stored
  max-max plane id is the supplied value. So the stored value does not decrease in a
  call that supplies a value greater than or equal to it.
\<close>

theorem UploadPointPlaneIds_stores_supplied:
  "mMaxMaxPlaneId (UploadPointPlaneIds planeId maxMaxPlaneId s) = maxMaxPlaneId
   \<and> (mMaxMaxPlaneId s \<le> maxMaxPlaneId \<longrightarrow>
        mMaxMaxPlaneId s \<le> mMaxMaxPlaneId (UploadPointPlaneIds planeId maxMaxPlaneId s))"
  by (simp add: UploadPointPlaneIds_def OnViewModelUpdated_def
        UpdateOrthoMatrices_mMaxMaxPlaneId glBindBuffer_def Let_def)

theorem UploadPointPlaneIds_stores_supplied_witness:
  "mMaxMaxPlaneId exampleShip \<le> 7
   \<and> mMaxMaxPlaneId (UploadPointPlaneIds examplePlaneIds 7 exampleShip) = 7
   \<and> mMaxMaxPlaneId exampleShip
       \<le> mMaxMaxPlaneId (UploadPointPlaneIds examplePlaneIds 7 exampleShip)"
proof -
  have le: "mMaxMaxPlaneId exampleShip \<le> 7"
    by (simp add: exampleShip_def)
  then show ?thesis
    using UploadPointPlaneIds_stores_supplied [of examplePlaneIds 7 exampleShip] by simp
qed

text \<open>
  C4 as stated fails: with 5 stored, a call that supplies 3 leaves 3 stored.
\<close>

theorem UploadPointPlaneIds_stored_value_decreases:
  "mMaxMaxPlaneId exampleShipAtPlane5 = 5
   \<and> mMaxMaxPlaneId (UploadPointPlaneIds examplePlaneIds 3 exampleShipAtPlane5) = 3
   \<and> mMaxMaxPlaneId (UploadPointPlaneIds examplePlaneIds 3 exampleShipAtPlane5)
       < mMaxMaxPlaneId exampleShipAtPlane5"
  by (simp add: exampleShipAtPlane5_def exampleShip_def UploadPointPlaneIds_def
        OnViewModelUpdated_def UpdateOrthoMatrices_mMaxMaxPlaneId glBindBuffer_def Let_def)


section \<open>Draw calls of the render functions\<close>

lemmas gl_defs = ActivateProgram_def glBindBuffer_def glDrawElements_def glDrawArrays_def

lemma sameScene_refl: "sameScene s s"
  by (simp add: sameScene_def)

lemma sameScene_trans: "sameScene s t \<Longrightarrow> sameScene t u \<Longrightarrow> sameScene s u"
  by (simp add: sameScene_def)

lemma sameScene_render:
  "sameScene s (glDisableVertexAttribArray0 s)"
  "sameScene s (RenderPointElements s)"
  "sameScene s (RenderTriangleElements b s)"
  "sameScene s (RenderRopeElements s)"
  "sameScene s (RenderSpringElements b s)"
  "sameScene s (RenderStressedSpringElements s)"
  "sameScene s (RenderEphemeralPoints s)"
  "sameScene s (RenderVectors s)"
  by (simp_all add: sameScene_def glDisableVertexAttribArray0_def RenderPointElements_def
        RenderTriangleElements_def RenderRopeElements_def RenderSpringElements_def
        RenderStressedSpringElements_def RenderEphemeralPoints_def RenderVectors_def
        gl_defs Let_def)

lemma draws_render:
  "DrawCalls (gl (glDisableVertexAttribArray0 s)) = DrawCalls (gl s)"
  "DrawCalls (gl (RenderPointElements s)) = DrawCalls (gl s) @
     [DrawElements (Some ShipPointsColor) (Some PointElementVBO) GL_POINTS
        (length (mPointElementBuffer s))]"
  "DrawCalls (gl (RenderTriangleElements b s)) = DrawCalls (gl s) @
     [DrawElements (Some (if b then ShipTrianglesTexture else ShipTrianglesColor))
        (Some TriangleElementVBO) GL_TRIANGLES (3 * length (mTriangleElementBuffer s))]"
  "DrawCalls (gl (RenderRopeElements s)) = DrawCalls (gl s) @
     [DrawElements (Some ShipRopes) (Some RopeElementVBO) GL_LINES
        (2 * length (mRopeElementBuffer s))]"
  "DrawCalls (gl (RenderSpringElements b s)) = DrawCalls (gl s) @
     [DrawElements (Some (if b then ShipTrianglesTexture else ShipTrianglesColor))
        (Some SpringElementVBO) GL_LINES (2 * length (mSpringElementBuffer s))]"
  "DrawCalls (gl (RenderStressedSpringElements s)) = DrawCalls (gl s) @
     (if mStressedSpringElementBuffer s \<noteq> []
      then [DrawElements (Some ShipStressedSprings) (Some StressedSpringElementVBO) GL_LINES
              (2 * length (mStressedSpringElementBuffer s))] else [])"
  "DrawCalls (gl (RenderEphemeralPoints s)) = DrawCalls (gl s) @
     (if mEphemeralPoints s \<noteq> []
      then [DrawElements (Some ShipPointsColor) (Some EphemeralPointVBO) GL_POINTS
              (length (mEphemeralPoints s))] else [])"
  "DrawCalls (gl (RenderVectors s)) = DrawCalls (gl s) @
     [DrawArrays (Some ShipVectors) (Some VectorArrowPointPositionVBO) GL_LINES
        (length (mVectorArrowPointPositionBuffer s))]"
  by (simp_all add: glDisableVertexAttribArray0_def RenderPointElements_def
        RenderTriangleElements_def RenderRopeElements_def RenderSpringElements_def
        RenderStressedSpringElements_def RenderEphemeralPoints_def RenderVectors_def
        gl_defs Let_def)


lemmas scene_render = sameScene_render [unfolded sameScene_def]

lemma RenderEnd_elements_draws:
  "DrawCalls (gl (RenderEnd_elements s)) = DrawCalls (gl s)
     @ (if mDebugShipRenderMode s = Points
        then [DrawElements (Some ShipPointsColor) (Some PointElementVBO) GL_POINTS
                (length (mPointElementBuffer s))] else [])
     @ (if mDebugShipRenderMode s = Wireframe \<or> mDebugShipRenderMode s = None_debug
        then [DrawElements
                (Some (if mShipRenderMode s = Texture then ShipTrianglesTexture else ShipTrianglesColor))
                (Some TriangleElementVBO) GL_TRIANGLES (3 * length (mTriangleElementBuffer s))]
        else [])
     @ (if mDebugShipRenderMode s \<noteq> None_debug \<or> mShipRenderMode s \<noteq> Structure
        then [DrawElements (Some ShipRopes) (Some RopeElementVBO) GL_LINES
                (2 * length (mRopeElementBuffer s))] else [])
     @ (if mDebugShipRenderMode s = Springs \<or> mDebugShipRenderMode s = EdgeSprings
           \<or> mDebugShipRenderMode s = None_debug
        then [DrawElements
                (Some (if mDebugShipRenderMode s = None_debug \<and> mShipRenderMode s = Texture
                       then ShipTrianglesTexture else ShipTrianglesColor))
                (Some SpringElementVBO) GL_LINES (2 * length (mSpringElementBuffer s))]
        else [])
     @ (if mDebugShipRenderMode s = None_debug \<and> mShipRenderMode s = Structure
        then [DrawElements (Some ShipRopes) (Some RopeElementVBO) GL_LINES
                (2 * length (mRopeElementBuffer s))] else [])
     @ (if mDebugShipRenderMode s = None_debug \<and> mShowStressedSprings s
           \<and> mStressedSpringElementBuffer s \<noteq> []
        then [DrawElements (Some ShipStressedSprings) (Some StressedSpringElementVBO) GL_LINES
                (2 * length (mStressedSpringElementBuffer s))] else [])
     @ (if mEphemeralPoints s \<noteq> []
        then [DrawElements (Some ShipPointsColor) (Some EphemeralPointVBO) GL_POINTS
                (length (mEphemeralPoints s))] else [])"
  by (cases "mDebugShipRenderMode s"; cases "mShipRenderMode s")
     (simp_all add: RenderEnd_elements_def statements_def if_then_def draws_render scene_render)

lemma sameScene_statements:
  "(\<And>f x. f \<in> set fs \<Longrightarrow> sameScene x (f x)) \<Longrightarrow> sameScene s (statements fs s)"
proof (induction fs arbitrary: s)
  case Nil
  then show ?case by (simp add: statements_def sameScene_refl)
next
  case (Cons f fs)
  have step: "statements (f # fs) s = statements fs (f s)"
    by (simp add: statements_def)
  have "sameScene s (f s)" using Cons.prems by simp
  moreover have "sameScene (f s) (statements fs (f s))" using Cons by simp
  ultimately show ?case
    unfolding step by (rule sameScene_trans)
qed

lemma sameScene_if_then: "(\<And>x. sameScene x (f x)) \<Longrightarrow> sameScene s (if_then c f s)"
  by (simp add: if_then_def sameScene_refl)

lemma sameScene_RenderEnd_elements: "sameScene s (RenderEnd_elements s)"
  unfolding RenderEnd_elements_def
  by (rule sameScene_statements) (auto intro: sameScene_if_then sameScene_render)


lemma RenderGenericTextures_scene:
  "sameScene s (stateAfter (RenderGenericTextures c s))"
  by (simp add: RenderGenericTextures_def sameScene_def gl_defs Let_def)

lemma RenderGenericTextures_allocated:
  "mGenericTextureAllocatedVertexBufferSize (stateAfter (RenderGenericTextures c s)) =
     (if VertexBuffer c \<noteq> [] then mGenericTextureMaxVertexBufferSize s
      else mGenericTextureAllocatedVertexBufferSize s)"
  by (simp add: RenderGenericTextures_def gl_defs Let_def)

lemma RenderGenericTextures_draws:
  "DrawCalls (gl (stateAfter (RenderGenericTextures c s))) = DrawCalls (gl s) @
     (if VertexBuffer c \<noteq> [] \<and> length (VertexBuffer c) \<le> mGenericTextureMaxVertexBufferSize s
      then [DrawArrays (Some ShipGenericTextures) (Some GenericTextureRenderPolygonVertexVBO)
              GL_TRIANGLES (length (VertexBuffer c))]
      else [])"
  by (simp add: RenderGenericTextures_def gl_defs Let_def)

lemma RenderGenericTextures_returns:
  "length (VertexBuffer c) \<le> mGenericTextureMaxVertexBufferSize s \<Longrightarrow>
     \<exists>s'. RenderGenericTextures c s = Inr s'"
  by (simp add: RenderGenericTextures_def gl_defs Let_def)

lemma loop_step:
  "stateAfter (RenderGenericTextures_loop (c # cs) s) =
     (case RenderGenericTextures c s of
        Inl e \<Rightarrow> stateAfter (RenderGenericTextures c s)
      | Inr s' \<Rightarrow> stateAfter (RenderGenericTextures_loop cs s'))"
  by (simp split: sum.split)

lemma loop_scene: "sameScene s (stateAfter (RenderGenericTextures_loop cs s))"
proof (induction cs arbitrary: s)
  case Nil
  show ?case by (simp add: sameScene_refl)
next
  case (Cons c cs)
  show ?case
  proof (cases "RenderGenericTextures c s")
    case (Inl e)
    then show ?thesis
      using RenderGenericTextures_scene [of s c] by simp
  next
    case (Inr s')
    then have "sameScene s s'"
      using RenderGenericTextures_scene [of s c] by simp
    moreover have "sameScene s' (stateAfter (RenderGenericTextures_loop cs s'))"
      by (rule Cons.IH)
    ultimately have "sameScene s (stateAfter (RenderGenericTextures_loop cs s'))"
      by (rule sameScene_trans)
    then show ?thesis
      using Inr by simp
  qed
qed

lemma loop_allocated:
  "mGenericTextureAllocatedVertexBufferSize (stateAfter (RenderGenericTextures_loop cs s)) =
     (if \<exists>c \<in> set cs. VertexBuffer c \<noteq> [] then mGenericTextureMaxVertexBufferSize s
      else mGenericTextureAllocatedVertexBufferSize s)"
proof (induction cs arbitrary: s)
  case Nil
  show ?case by simp
next
  case (Cons c cs)
  show ?case
  proof (cases "RenderGenericTextures c s")
    case (Inl e)
    then have "VertexBuffer c \<noteq> []"
      by (auto simp: RenderGenericTextures_def split: if_splits)
    then show ?thesis
      using Inl RenderGenericTextures_allocated [of c s] by simp
  next
    case (Inr s')
    have scene: "mGenericTextureMaxVertexBufferSize s' = mGenericTextureMaxVertexBufferSize s"
      using RenderGenericTextures_scene [of s c] Inr by (simp add: sameScene_def)
    have alloc: "mGenericTextureAllocatedVertexBufferSize s' =
        (if VertexBuffer c \<noteq> [] then mGenericTextureMaxVertexBufferSize s
         else mGenericTextureAllocatedVertexBufferSize s)"
      using RenderGenericTextures_allocated [of c s] Inr by simp
    show ?thesis
      using Inr Cons.IH [of s'] scene alloc by auto
  qed
qed

lemma loop_draws_any:
  "\<exists>ds. DrawCalls (gl (stateAfter (RenderGenericTextures_loop cs s))) = DrawCalls (gl s) @ ds
     \<and> (\<forall>d \<in> set ds. \<not> isRopeDraw d \<and> \<not> isSpringDraw d \<and> \<not> isPointDraw d)"
proof (induction cs arbitrary: s)
  case Nil
  show ?case by simp
next
  case (Cons c cs)
  obtain d1 where d1: "DrawCalls (gl (stateAfter (RenderGenericTextures c s))) = DrawCalls (gl s) @ d1"
    and n1: "\<forall>d \<in> set d1. \<not> isRopeDraw d \<and> \<not> isSpringDraw d \<and> \<not> isPointDraw d"
    using RenderGenericTextures_draws [of c s] by (cases "VertexBuffer c \<noteq> [] \<and> length (VertexBuffer c) \<le> mGenericTextureMaxVertexBufferSize s") auto
  show ?case
  proof (cases "RenderGenericTextures c s")
    case (Inl e)
    then show ?thesis using d1 n1 by auto
  next
    case (Inr s')
    obtain d2 where d2: "DrawCalls (gl (stateAfter (RenderGenericTextures_loop cs s'))) = DrawCalls (gl s') @ d2"
      and n2: "\<forall>d \<in> set d2. \<not> isRopeDraw d \<and> \<not> isSpringDraw d \<and> \<not> isPointDraw d"
      using Cons.IH [of s'] by blast
    have "DrawCalls (gl (stateAfter (RenderGenericTextures_loop (c # cs) s))) = DrawCalls (gl s) @ (d1 @ d2)"
      using Inr d1 d2 by simp
    moreover have "\<forall>d \<in> set (d1 @ d2). \<not> isRopeDraw d \<and> \<not> isSpringDraw d \<and> \<not> isPointDraw d"
      using n1 n2 by auto
    ultimately show ?thesis by blast
  qed
qed

lemma loop_draws_fit:
  "\<forall>c \<in> set cs. length (VertexBuffer c) \<le> mGenericTextureMaxVertexBufferSize s \<Longrightarrow>
   \<exists>s'. RenderGenericTextures_loop cs s = Inr s'
     \<and> DrawCalls (gl s') = DrawCalls (gl s) @
         map (\<lambda>c. DrawArrays (Some ShipGenericTextures) (Some GenericTextureRenderPolygonVertexVBO)
                    GL_TRIANGLES (length (VertexBuffer c)))
           (filter (\<lambda>c. VertexBuffer c \<noteq> []) cs)"
proof (induction cs arbitrary: s)
  case Nil
  show ?case by simp
next
  case (Cons c cs)
  from Cons.prems have fit: "length (VertexBuffer c) \<le> mGenericTextureMaxVertexBufferSize s"
    by simp
  then obtain s1 where s1: "RenderGenericTextures c s = Inr s1"
    using RenderGenericTextures_returns by blast
  have scene: "mGenericTextureMaxVertexBufferSize s1 = mGenericTextureMaxVertexBufferSize s"
    using RenderGenericTextures_scene [of s c] s1 by (simp add: sameScene_def)
  have d1: "DrawCalls (gl s1) = DrawCalls (gl s) @
     (if VertexBuffer c \<noteq> []
      then [DrawArrays (Some ShipGenericTextures) (Some GenericTextureRenderPolygonVertexVBO)
              GL_TRIANGLES (length (VertexBuffer c))]
      else [])"
    using RenderGenericTextures_draws [of c s] s1 fit by simp
  have "\<forall>c \<in> set cs. length (VertexBuffer c) \<le> mGenericTextureMaxVertexBufferSize s1"
    using Cons.prems scene by simp
  from Cons.IH [OF this] obtain s' where
    s': "RenderGenericTextures_loop cs s1 = Inr s'" and
    d2: "DrawCalls (gl s') = DrawCalls (gl s1) @
         map (\<lambda>c. DrawArrays (Some ShipGenericTextures) (Some GenericTextureRenderPolygonVertexVBO)
                    GL_TRIANGLES (length (VertexBuffer c)))
           (filter (\<lambda>c. VertexBuffer c \<noteq> []) cs)"
    by blast
  show ?case
    using s1 s' d1 d2 by simp
qed

lemma allocated_render:
  "mGenericTextureAllocatedVertexBufferSize (glDisableVertexAttribArray0 s) = mGenericTextureAllocatedVertexBufferSize s"
  "mGenericTextureAllocatedVertexBufferSize (RenderPointElements s) = mGenericTextureAllocatedVertexBufferSize s"
  "mGenericTextureAllocatedVertexBufferSize (RenderTriangleElements b s) = mGenericTextureAllocatedVertexBufferSize s"
  "mGenericTextureAllocatedVertexBufferSize (RenderRopeElements s) = mGenericTextureAllocatedVertexBufferSize s"
  "mGenericTextureAllocatedVertexBufferSize (RenderSpringElements b s) = mGenericTextureAllocatedVertexBufferSize s"
  "mGenericTextureAllocatedVertexBufferSize (RenderStressedSpringElements s) = mGenericTextureAllocatedVertexBufferSize s"
  "mGenericTextureAllocatedVertexBufferSize (RenderEphemeralPoints s) = mGenericTextureAllocatedVertexBufferSize s"
  "mGenericTextureAllocatedVertexBufferSize (RenderVectors s) = mGenericTextureAllocatedVertexBufferSize s"
  by (simp_all add: glDisableVertexAttribArray0_def RenderPointElements_def
        RenderTriangleElements_def RenderRopeElements_def RenderSpringElements_def
        RenderStressedSpringElements_def RenderEphemeralPoints_def RenderVectors_def
        gl_defs Let_def)

lemma allocated_RenderEnd_elements:
  "mGenericTextureAllocatedVertexBufferSize (RenderEnd_elements s)
     = mGenericTextureAllocatedVertexBufferSize s"
  by (simp add: RenderEnd_elements_def statements_def if_then_def allocated_render)

lemma RenderEnd_stateAfter:
  "stateAfter (RenderEnd s) =
     (case RenderGenericTextures_loop (mGenericTextureConnectedComponents (RenderEnd_elements s))
             (RenderEnd_elements s) of
        Inl e \<Rightarrow> snd e
      | Inr s8 \<Rightarrow>
          (if mVectorFieldRenderMode s8 \<noteq> None_vector then RenderVectors s8 else s8)
            \<lparr>mRenderStatistics :=
               (mRenderStatistics (if mVectorFieldRenderMode s8 \<noteq> None_vector then RenderVectors s8 else s8))
                 \<lparr>LastRenderedShipPlanes :=
                    LastRenderedShipPlanes (mRenderStatistics (if mVectorFieldRenderMode s8 \<noteq> None_vector then RenderVectors s8 else s8))
                      + unat (mMaxMaxPlaneId (if mVectorFieldRenderMode s8 \<noteq> None_vector then RenderVectors s8 else s8) + 1)\<rparr>\<rparr>)"
  by (auto simp: RenderEnd_def Let_def split: sum.split)

lemma stateAfter_Inl: "r = Inl e \<Longrightarrow> stateAfter r = snd e"
  by (cases e) simp

lemma RenderEnd_allocated:
  "mGenericTextureAllocatedVertexBufferSize (stateAfter (RenderEnd s)) =
     (if \<exists>c \<in> set (mGenericTextureConnectedComponents s). VertexBuffer c \<noteq> []
      then mGenericTextureMaxVertexBufferSize s
      else mGenericTextureAllocatedVertexBufferSize s)"
proof -
  let ?e = "RenderEnd_elements s"
  let ?r = "RenderGenericTextures_loop (mGenericTextureConnectedComponents ?e) ?e"
  have scene: "sameScene s ?e" by (rule sameScene_RenderEnd_elements)
  have loop: "mGenericTextureAllocatedVertexBufferSize (stateAfter ?r) =
     (if \<exists>c \<in> set (mGenericTextureConnectedComponents s). VertexBuffer c \<noteq> []
      then mGenericTextureMaxVertexBufferSize s
      else mGenericTextureAllocatedVertexBufferSize s)"
    using loop_allocated [of "mGenericTextureConnectedComponents ?e" ?e] scene
    by (simp add: sameScene_def allocated_RenderEnd_elements)
  have "mGenericTextureAllocatedVertexBufferSize (stateAfter (RenderEnd s))
          = mGenericTextureAllocatedVertexBufferSize (stateAfter ?r)"
  proof (cases ?r)
    case (Inl e)
    then show ?thesis
      by (simp add: RenderEnd_stateAfter stateAfter_Inl)
  next
    case (Inr s8)
    then show ?thesis
      by (simp add: RenderEnd_stateAfter allocated_render)
  qed
  then show ?thesis using loop by simp
qed

lemma RenderEnd_draws_any:
  "\<exists>ds. DrawCalls (gl (stateAfter (RenderEnd s))) = DrawCalls (gl (RenderEnd_elements s)) @ ds
     \<and> (\<forall>d \<in> set ds. \<not> isRopeDraw d \<and> \<not> isSpringDraw d \<and> \<not> isPointDraw d)"
proof -
  let ?e = "RenderEnd_elements s"
  let ?r = "RenderGenericTextures_loop (mGenericTextureConnectedComponents ?e) ?e"
  obtain d1 where d1: "DrawCalls (gl (stateAfter ?r)) = DrawCalls (gl ?e) @ d1"
    and n1: "\<forall>d \<in> set d1. \<not> isRopeDraw d \<and> \<not> isSpringDraw d \<and> \<not> isPointDraw d"
    using loop_draws_any [of "mGenericTextureConnectedComponents ?e" ?e] by blast
  show ?thesis
  proof (cases ?r)
    case (Inl e)
    then have "DrawCalls (gl (stateAfter (RenderEnd s))) = DrawCalls (gl ?e) @ d1"
      using d1 by (simp add: RenderEnd_stateAfter stateAfter_Inl)
    then show ?thesis using n1 by blast
  next
    case (Inr s8)
    let ?v = "if mVectorFieldRenderMode s8 \<noteq> None_vector
              then [DrawArrays (Some ShipVectors) (Some VectorArrowPointPositionVBO) GL_LINES
                      (length (mVectorArrowPointPositionBuffer s8))] else []"
    have "DrawCalls (gl (stateAfter (RenderEnd s))) = DrawCalls (gl ?e) @ (d1 @ ?v)"
      using Inr d1 by (simp add: RenderEnd_stateAfter draws_render)
    moreover have "\<forall>d \<in> set (d1 @ ?v). \<not> isRopeDraw d \<and> \<not> isSpringDraw d \<and> \<not> isPointDraw d"
      using n1 by auto
    ultimately show ?thesis by blast
  qed
qed

lemma RenderEnd_rope_spring_draws:
  "filter (\<lambda>d. isRopeDraw d \<or> isSpringDraw d) (issuedDraws s (RenderEnd s)) =
     filter (\<lambda>d. isRopeDraw d \<or> isSpringDraw d)
       (drop (length (DrawCalls (gl s))) (DrawCalls (gl (RenderEnd_elements s))))"
proof -
  obtain ds where ds: "DrawCalls (gl (stateAfter (RenderEnd s))) = DrawCalls (gl (RenderEnd_elements s)) @ ds"
    and no: "\<forall>d \<in> set ds. \<not> isRopeDraw d \<and> \<not> isSpringDraw d \<and> \<not> isPointDraw d"
    using RenderEnd_draws_any by blast
  have "filter (\<lambda>d. isRopeDraw d \<or> isSpringDraw d) ds = []"
    using no by (auto simp: filter_empty_conv)
  moreover have "length (DrawCalls (gl s)) \<le> length (DrawCalls (gl (RenderEnd_elements s)))"
    by (simp add: RenderEnd_elements_draws)
  ultimately show ?thesis
    using ds by (simp add: issuedDraws_def)
qed

lemma RenderEnd_draws_fit:
  assumes fit: "\<forall>c \<in> set (mGenericTextureConnectedComponents s).
                  length (VertexBuffer c) \<le> mGenericTextureMaxVertexBufferSize s"
  shows "\<exists>s'. RenderEnd s = Inr s'
     \<and> DrawCalls (gl s') = DrawCalls (gl (RenderEnd_elements s)) @
         map (\<lambda>c. DrawArrays (Some ShipGenericTextures) (Some GenericTextureRenderPolygonVertexVBO)
                    GL_TRIANGLES (length (VertexBuffer c)))
           (filter (\<lambda>c. VertexBuffer c \<noteq> []) (mGenericTextureConnectedComponents s)) @
         (if mVectorFieldRenderMode s \<noteq> None_vector
          then [DrawArrays (Some ShipVectors) (Some VectorArrowPointPositionVBO) GL_LINES
                  (length (mVectorArrowPointPositionBuffer s))]
          else [])"
proof -
  let ?e = "RenderEnd_elements s"
  have scene: "sameScene s ?e" by (rule sameScene_RenderEnd_elements)
  then have "\<forall>c \<in> set (mGenericTextureConnectedComponents ?e).
               length (VertexBuffer c) \<le> mGenericTextureMaxVertexBufferSize ?e"
    using fit by (simp add: sameScene_def)
  from loop_draws_fit [OF this] obtain s8 where
    s8: "RenderGenericTextures_loop (mGenericTextureConnectedComponents ?e) ?e = Inr s8" and
    d8: "DrawCalls (gl s8) = DrawCalls (gl ?e) @
         map (\<lambda>c. DrawArrays (Some ShipGenericTextures) (Some GenericTextureRenderPolygonVertexVBO)
                    GL_TRIANGLES (length (VertexBuffer c)))
           (filter (\<lambda>c. VertexBuffer c \<noteq> []) (mGenericTextureConnectedComponents ?e))"
    by blast
  have "sameScene ?e s8"
    using loop_scene [of ?e "mGenericTextureConnectedComponents ?e"] s8 by simp
  with scene have scene8: "sameScene s s8" by (rule sameScene_trans)
  have comps: "mGenericTextureConnectedComponents ?e = mGenericTextureConnectedComponents s"
    using scene by (simp add: sameScene_def)
  have vec: "mVectorFieldRenderMode s8 = mVectorFieldRenderMode s"
    "mVectorArrowPointPositionBuffer s8 = mVectorArrowPointPositionBuffer s"
    using scene8 by (simp_all add: sameScene_def)
  show ?thesis
    using s8 d8 comps vec by (simp add: RenderEnd_def Let_def draws_render)
qed

lemma RenderEnd_exampleShip_draws:
  "issuedDraws exampleShip (RenderEnd exampleShip) =
     [DrawElements (Some ShipTrianglesColor) (Some TriangleElementVBO) GL_TRIANGLES 3,
      DrawElements (Some ShipTrianglesColor) (Some SpringElementVBO) GL_LINES 6,
      DrawElements (Some ShipRopes) (Some RopeElementVBO) GL_LINES 0]"
proof -
  have fit: "\<forall>c \<in> set (mGenericTextureConnectedComponents exampleShip).
       length (VertexBuffer c) \<le> mGenericTextureMaxVertexBufferSize exampleShip"
    by (simp add: exampleShip_def)
  from RenderEnd_draws_fit [OF fit] obtain s' where
    "RenderEnd exampleShip = Inr s'"
    "DrawCalls (gl s') = DrawCalls (gl (RenderEnd_elements exampleShip)) @
         map (\<lambda>c. DrawArrays (Some ShipGenericTextures) (Some GenericTextureRenderPolygonVertexVBO)
                    GL_TRIANGLES (length (VertexBuffer c)))
           (filter (\<lambda>c. VertexBuffer c \<noteq> []) (mGenericTextureConnectedComponents exampleShip)) @
         (if mVectorFieldRenderMode exampleShip \<noteq> None_vector
          then [DrawArrays (Some ShipVectors) (Some VectorArrowPointPositionVBO) GL_LINES
                  (length (mVectorArrowPointPositionBuffer exampleShip))]
          else [])"
    by blast
  then show ?thesis
    by (simp add: issuedDraws_def RenderEnd_elements_draws) (simp add: exampleShip_def)
qed

lemma RenderEnd_exampleShipWithRopes_draws:
  "issuedDraws exampleShipWithRopes (RenderEnd exampleShipWithRopes) =
     [DrawElements (Some ShipTrianglesColor) (Some TriangleElementVBO) GL_TRIANGLES 3,
      DrawElements (Some ShipTrianglesColor) (Some SpringElementVBO) GL_LINES 6,
      DrawElements (Some ShipRopes) (Some RopeElementVBO) GL_LINES 4]"
proof -
  have fit: "\<forall>c \<in> set (mGenericTextureConnectedComponents exampleShipWithRopes).
       length (VertexBuffer c) \<le> mGenericTextureMaxVertexBufferSize exampleShipWithRopes"
    by (simp add: exampleShipWithRopes_def exampleShip_def)
  from RenderEnd_draws_fit [OF fit] obtain s' where
    "RenderEnd exampleShipWithRopes = Inr s'"
    "DrawCalls (gl s') = DrawCalls (gl (RenderEnd_elements exampleShipWithRopes)) @
         map (\<lambda>c. DrawArrays (Some ShipGenericTextures) (Some GenericTextureRenderPolygonVertexVBO)
                    GL_TRIANGLES (length (VertexBuffer c)))
           (filter (\<lambda>c. VertexBuffer c \<noteq> [])
              (mGenericTextureConnectedComponents exampleShipWithRopes)) @
         (if mVectorFieldRenderMode exampleShipWithRopes \<noteq> None_vector
          then [DrawArrays (Some ShipVectors) (Some VectorArrowPointPositionVBO) GL_LINES
                  (length (mVectorArrowPointPositionBuffer exampleShipWithRopes))]
          else [])"
    by blast
  then show ?thesis
    by (simp add: issuedDraws_def RenderEnd_elements_draws)
       (simp add: exampleShipWithRopes_def exampleShip_def)
qed


section \<open>Ropes and springs in \<^verbatim>\<open>RenderEnd\<close>\<close>

text \<open>
  C2, as the code has it. In every combination of the mode flags \<^verbatim>\<open>RenderEnd\<close>
  issues one draw of the rope elements. It comes before the draw of the spring elements
  in every combination that draws springs, except under ship render mode Structure with
  debug render mode None: there the only rope draw comes after the spring draw. The
  theorem lists the rope and spring draws of one call, in the order they are issued.
\<close>

theorem RenderEnd_ropes_once_relative_to_springs:
  "filter (\<lambda>d. isRopeDraw d \<or> isSpringDraw d) (issuedDraws s (RenderEnd s)) =
     (if mDebugShipRenderMode s = None_debug \<and> mShipRenderMode s = Structure
      then [DrawElements (Some ShipTrianglesColor) (Some SpringElementVBO) GL_LINES
              (2 * length (mSpringElementBuffer s)),
            DrawElements (Some ShipRopes) (Some RopeElementVBO) GL_LINES
              (2 * length (mRopeElementBuffer s))]
      else if mDebugShipRenderMode s = None_debug
      then [DrawElements (Some ShipRopes) (Some RopeElementVBO) GL_LINES
              (2 * length (mRopeElementBuffer s)),
            DrawElements (Some ShipTrianglesTexture) (Some SpringElementVBO) GL_LINES
              (2 * length (mSpringElementBuffer s))]
      else if mDebugShipRenderMode s = Springs \<or> mDebugShipRenderMode s = EdgeSprings
      then [DrawElements (Some ShipRopes) (Some RopeElementVBO) GL_LINES
              (2 * length (mRopeElementBuffer s)),
            DrawElements (Some ShipTrianglesColor) (Some SpringElementVBO) GL_LINES
              (2 * length (mSpringElementBuffer s))]
      else [DrawElements (Some ShipRopes) (Some RopeElementVBO) GL_LINES
              (2 * length (mRopeElementBuffer s))])"
  unfolding RenderEnd_rope_spring_draws
  by (cases "mDebugShipRenderMode s"; cases "mShipRenderMode s")
     (simp_all add: RenderEnd_elements_draws)

theorem RenderEnd_ropes_once_relative_to_springs_witness:
  "filter (\<lambda>d. isRopeDraw d \<or> isSpringDraw d)
       (issuedDraws exampleShipWithRopes (RenderEnd exampleShipWithRopes)) =
     [DrawElements (Some ShipTrianglesColor) (Some SpringElementVBO) GL_LINES 6,
      DrawElements (Some ShipRopes) (Some RopeElementVBO) GL_LINES 4]"
  using RenderEnd_ropes_once_relative_to_springs [of exampleShipWithRopes]
  by (simp add: exampleShipWithRopes_def exampleShip_def)

text \<open>
  C2 as stated fails: under Structure and no debug mode, the example ship with two
  ropes gets three draws, and the rope elements are drawn once, after the springs.
\<close>

theorem RenderEnd_structure_ropes_not_twice:
  "mShipRenderMode exampleShipWithRopes = Structure
   \<and> mDebugShipRenderMode exampleShipWithRopes = None_debug
   \<and> issuedDraws exampleShipWithRopes (RenderEnd exampleShipWithRopes) =
       [DrawElements (Some ShipTrianglesColor) (Some TriangleElementVBO) GL_TRIANGLES 3,
        DrawElements (Some ShipTrianglesColor) (Some SpringElementVBO) GL_LINES 6,
        DrawElements (Some ShipRopes) (Some RopeElementVBO) GL_LINES 4]
   \<and> length (filter isRopeDraw
        (issuedDraws exampleShipWithRopes (RenderEnd exampleShipWithRopes))) \<noteq> 2"
  by (simp add: RenderEnd_exampleShipWithRopes_draws)
     (simp add: exampleShipWithRopes_def exampleShip_def)

text \<open>
  C10. For every combination of ship render mode and debug render mode (and every other
  member of the context), one call of \<^verbatim>\<open>RenderEnd\<close> issues the draw of the rope
  elements exactly once: the guards of the two calls of \<^verbatim>\<open>RenderRopeElements\<close> are
  complements of each other.
\<close>

theorem RenderEnd_draws_ropes_exactly_once:
  "length (filter isRopeDraw (issuedDraws s (RenderEnd s))) = 1"
proof -
  have ropes: "filter isRopeDraw ds
                 = filter isRopeDraw (filter (\<lambda>d. isRopeDraw d \<or> isSpringDraw d) ds)" for ds
    by (induction ds) auto
  show ?thesis
    unfolding ropes [of "issuedDraws s (RenderEnd s)"] RenderEnd_rope_spring_draws
    by (cases "mDebugShipRenderMode s"; cases "mShipRenderMode s")
       (simp_all add: RenderEnd_elements_draws)
qed

theorem RenderEnd_draws_ropes_exactly_once_witness:
  "length (filter isRopeDraw
     (issuedDraws exampleShipWithRopes (RenderEnd exampleShipWithRopes))) = 1
   \<and> length (filter isRopeDraw
     (issuedDraws (exampleShip\<lparr>mDebugShipRenderMode := Wireframe\<rparr>)
        (RenderEnd (exampleShip\<lparr>mDebugShipRenderMode := Wireframe\<rparr>)))) = 1"
  using RenderEnd_draws_ropes_exactly_once [of exampleShipWithRopes]
    RenderEnd_draws_ropes_exactly_once [of "exampleShip\<lparr>mDebugShipRenderMode := Wireframe\<rparr>"]
  by simp


section \<open>The draw order under Structure, no debug mode, stressed springs off\<close>

text \<open>
  C3, as the code has it. With ship render mode Structure, debug render mode None and
  the stressed-springs toggle off, and every generic-texture component within the
  tracked maximum size, \<^verbatim>\<open>RenderEnd\<close> returns and has issued, in this order: the
  triangles with the colour program, the springs with the colour program, the ropes
  (one draw call, issued also when there are no ropes), the ephemeral points if there
  are any, one draw per non-empty generic-texture component, and the vectors when the
  vector field mode is not None. There is no draw of the point elements and no second
  draw of the ropes.
\<close>

theorem RenderEnd_structure_draw_order:
  assumes "mShipRenderMode s = Structure"
    and "mDebugShipRenderMode s = None_debug"
    and "\<not> mShowStressedSprings s"
    and "\<forall>c \<in> set (mGenericTextureConnectedComponents s).
           length (VertexBuffer c) \<le> mGenericTextureMaxVertexBufferSize s"
  shows "(\<exists>s'. RenderEnd s = Inr s')
     \<and> issuedDraws s (RenderEnd s) =
         [DrawElements (Some ShipTrianglesColor) (Some TriangleElementVBO) GL_TRIANGLES
            (3 * length (mTriangleElementBuffer s)),
          DrawElements (Some ShipTrianglesColor) (Some SpringElementVBO) GL_LINES
            (2 * length (mSpringElementBuffer s)),
          DrawElements (Some ShipRopes) (Some RopeElementVBO) GL_LINES
            (2 * length (mRopeElementBuffer s))]
         @ (if mEphemeralPoints s \<noteq> []
            then [DrawElements (Some ShipPointsColor) (Some EphemeralPointVBO) GL_POINTS
                    (length (mEphemeralPoints s))]
            else [])
         @ map (\<lambda>c. DrawArrays (Some ShipGenericTextures) (Some GenericTextureRenderPolygonVertexVBO)
                      GL_TRIANGLES (length (VertexBuffer c)))
             (filter (\<lambda>c. VertexBuffer c \<noteq> []) (mGenericTextureConnectedComponents s))
         @ (if mVectorFieldRenderMode s \<noteq> None_vector
            then [DrawArrays (Some ShipVectors) (Some VectorArrowPointPositionVBO) GL_LINES
                    (length (mVectorArrowPointPositionBuffer s))]
            else [])
     \<and> filter isPointDraw (issuedDraws s (RenderEnd s)) = []
     \<and> length (filter isRopeDraw (issuedDraws s (RenderEnd s))) = 1"
proof -
  from RenderEnd_draws_fit [OF assms(4)] obtain s' where
    s': "RenderEnd s = Inr s'" and
    d: "DrawCalls (gl s') = DrawCalls (gl (RenderEnd_elements s)) @
         map (\<lambda>c. DrawArrays (Some ShipGenericTextures) (Some GenericTextureRenderPolygonVertexVBO)
                    GL_TRIANGLES (length (VertexBuffer c)))
           (filter (\<lambda>c. VertexBuffer c \<noteq> []) (mGenericTextureConnectedComponents s)) @
         (if mVectorFieldRenderMode s \<noteq> None_vector
          then [DrawArrays (Some ShipVectors) (Some VectorArrowPointPositionVBO) GL_LINES
                  (length (mVectorArrowPointPositionBuffer s))]
          else [])"
    by blast
  show ?thesis
    using s' d assms(1-3)
    by (simp add: issuedDraws_def RenderEnd_elements_draws filter_empty_conv)
qed

theorem RenderEnd_structure_draw_order_witness:
  "mShipRenderMode exampleShipWithRopes = Structure
   \<and> mDebugShipRenderMode exampleShipWithRopes = None_debug
   \<and> \<not> mShowStressedSprings exampleShipWithRopes
   \<and> list_all (\<lambda>c. length (VertexBuffer c) \<le> mGenericTextureMaxVertexBufferSize exampleShipWithRopes)
       (mGenericTextureConnectedComponents exampleShipWithRopes)
   \<and> issuedDraws exampleShipWithRopes (RenderEnd exampleShipWithRopes) =
       [DrawElements (Some ShipTrianglesColor) (Some TriangleElementVBO) GL_TRIANGLES 3,
        DrawElements (Some ShipTrianglesColor) (Some SpringElementVBO) GL_LINES 6,
        DrawElements (Some ShipRopes) (Some RopeElementVBO) GL_LINES 4]"
proof -
  have h: "mShipRenderMode exampleShipWithRopes = Structure"
    "mDebugShipRenderMode exampleShipWithRopes = None_debug"
    "\<not> mShowStressedSprings exampleShipWithRopes"
    "\<forall>c \<in> set (mGenericTextureConnectedComponents exampleShipWithRopes).
       length (VertexBuffer c) \<le> mGenericTextureMaxVertexBufferSize exampleShipWithRopes"
    by (simp_all add: exampleShipWithRopes_def exampleShip_def)
  show ?thesis
    using RenderEnd_structure_draw_order [OF h]
    by (simp add: exampleShipWithRopes_def exampleShip_def)
qed

text \<open>
  C3 as stated fails on the ship of the scenario itself: the springs are drawn before
  the ropes, and the rope draw is issued although the ship has no ropes.
\<close>

theorem RenderEnd_scenario_springs_before_ropes:
  "mShipRenderMode exampleShip = Structure
   \<and> mDebugShipRenderMode exampleShip = None_debug
   \<and> \<not> mShowStressedSprings exampleShip
   \<and> mRopeElementBuffer exampleShip = []
   \<and> issuedDraws exampleShip (RenderEnd exampleShip) =
       [DrawElements (Some ShipTrianglesColor) (Some TriangleElementVBO) GL_TRIANGLES 3,
        DrawElements (Some ShipTrianglesColor) (Some SpringElementVBO) GL_LINES 6,
        DrawElements (Some ShipRopes) (Some RopeElementVBO) GL_LINES 0]"
  by (simp add: RenderEnd_exampleShip_draws) (simp add: exampleShip_def)


section \<open>Capacity of the generic-texture vertex buffer\<close>

lemma RenderFrame_single_allocated:
  "vertices \<noteq> [] \<Longrightarrow>
     mGenericTextureAllocatedVertexBufferSize (stateAfter (RenderFrame [vertices] s))
       = length vertices"
  by (simp add: RenderFrame_def RenderEnd_allocated RenderStart_def
        UploadGenericTextureComponent_def)

text \<open>
  C5, as the code has it. \<^verbatim>\<open>RenderStart\<close> resets the size tracker to 0 in every frame.
  \<^verbatim>\<open>RenderEnd\<close> leaves the allocated capacity equal to the tracker of the frame when
  the frame has a non-empty component, whether the tracker is larger or smaller than
  the capacity before, and leaves the capacity unchanged when the frame has none.
\<close>

theorem RenderEnd_allocates_tracked_size:
  "mGenericTextureMaxVertexBufferSize (RenderStart s) = 0
   \<and> mGenericTextureAllocatedVertexBufferSize (stateAfter (RenderEnd s)) =
       (if \<exists>c \<in> set (mGenericTextureConnectedComponents s). VertexBuffer c \<noteq> []
        then mGenericTextureMaxVertexBufferSize s
        else mGenericTextureAllocatedVertexBufferSize s)"
  by (simp add: RenderEnd_allocated RenderStart_def)

theorem RenderEnd_allocates_tracked_size_witness:
  "mGenericTextureAllocatedVertexBufferSize
     (stateAfter (RenderEnd (exampleShip
        \<lparr>mGenericTextureConnectedComponents := [\<lparr>VertexBuffer = replicate 6 exampleVertex\<rparr>],
         mGenericTextureMaxVertexBufferSize := 6,
         mGenericTextureAllocatedVertexBufferSize := 12\<rparr>))) = 6"
  using RenderEnd_allocates_tracked_size [of "exampleShip
        \<lparr>mGenericTextureConnectedComponents := [\<lparr>VertexBuffer = replicate 6 exampleVertex\<rparr>],
         mGenericTextureMaxVertexBufferSize := 6,
         mGenericTextureAllocatedVertexBufferSize := 12\<rparr>"]
  by simp

text \<open>
  C5 as stated fails: after a frame with a component of 12 vertices the capacity is 12;
  after the next frame, with a component of 6 vertices, it is 6.
\<close>

theorem generic_texture_capacity_shrinks:
  "mGenericTextureAllocatedVertexBufferSize exampleAfterFrame1 = 12
   \<and> mGenericTextureAllocatedVertexBufferSize exampleAfterFrame2 = 6"
  by (simp add: exampleAfterFrame1_def exampleAfterFrame2_def RenderFrame_single_allocated)


section \<open>Partial upload of point colours\<close>

lemma uint_less_2p63:
  fixes w :: "64 word"
  assumes "unat w < 2 ^ 63"
  shows "uint w < 2 ^ 63"
proof -
  have "int (unat w) < int (2 ^ 63)" using assms by (rule iffD2 [OF of_nat_less_iff])
  then show ?thesis by simp
qed

lemma sint_nonneg_64:
  fixes w :: "64 word"
  assumes "unat w < 2 ^ 63"
  shows "sint w = int (unat w)"
proof -
  have lt: "uint w < 2 ^ 63" using assms by (rule uint_less_2p63)
  have ge: "- (2 ^ 63) \<le> uint w"
    by (rule order_trans [of _ 0]) simp_all
  have "signed_take_bit 63 (uint w) = uint w"
    using ge lt by (rule signed_take_bit_int_eq_self)
  then show ?thesis by (simp add: sint_uint)
qed

lemma sint_negative_64:
  fixes w :: "64 word"
  assumes ge: "2 ^ 63 \<le> uint w"
  shows "sint w < 0"
proof -
  have lt: "uint w < 2 ^ 64" using uint_lt2p [of w] by simp
  have "signed_take_bit 63 (uint w) = take_bit 64 (uint w + 2 ^ 63) - 2 ^ 63"
    by (simp add: signed_take_bit_eq_take_bit_shift)
  moreover have "take_bit 64 (uint w + 2 ^ 63) = uint w + 2 ^ 63 - 2 ^ 64"
  proof -
    have "(uint w + 2 ^ 63) mod 2 ^ 64 = uint w + 2 ^ 63 - 2 ^ 64"
      using ge lt by (intro int_mod_pos_eq [where q = 1]) simp_all
    then show ?thesis by (simp add: take_bit_eq_mod)
  qed
  ultimately have "sint w = uint w - 2 ^ 64"
    by (simp add: sint_uint)
  then show ?thesis using lt by simp
qed

lemma unat_times_16:
  fixes w :: "64 word"
  assumes "16 * unat w < 2 ^ 63"
  shows "unat (w * 16) = 16 * unat w"
proof -
  have "unat w * unat (16 :: 64 word) < 2 ^ LENGTH(64)"
    using assms by simp
  then have "unat (w * 16) = unat w * unat (16 :: 64 word)"
    by (simp only: unat_mult_lem)
  then show ?thesis by simp
qed

lemma wrapped_offset_negative:
  fixes startIndex count :: "64 word"
  assumes wrap: "2 ^ 64 \<le> unat startIndex + unat count"
    and fit: "16 * unat count < 2 ^ 63"
  shows "sint (startIndex * 16) < 0"
proof -
  have lt: "uint startIndex < 2 ^ 64" using uint_lt2p [of startIndex] by simp
  have "int (2 ^ 64) \<le> int (unat startIndex + unat count)"
    using wrap by (rule iffD2 [OF of_nat_le_iff])
  then have wrap': "2 ^ 64 \<le> uint startIndex + uint count"
    by simp
  have "int (16 * unat count) < int (2 ^ 63)"
    using fit by (rule iffD2 [OF of_nat_less_iff])
  then have fit': "16 * uint count < 2 ^ 63"
    by simp
  have "(uint startIndex * 16) mod 2 ^ 64 = uint startIndex * 16 - 15 * 2 ^ 64"
    using wrap' fit' lt by (intro int_mod_pos_eq [where q = 15]) simp_all
  moreover have "uint (startIndex * 16) = (uint startIndex * 16) mod 2 ^ 64"
    by (simp add: uint_word_ariths)
  ultimately have "uint (startIndex * 16) = uint startIndex * 16 - 15 * 2 ^ 64"
    by simp
  then have "2 ^ 63 \<le> uint (startIndex * 16)"
    using wrap' fit' by simp
  then show ?thesis by (rule sint_negative_64)
qed

lemma unat_plus_no_wrap:
  fixes a b c :: "64 word"
  assumes "unat a + unat b \<le> unat c"
  shows "unat (a + b) = unat a + unat b"
proof -
  have "unat c < 2 ^ LENGTH(64)" by (rule unsigned_less)
  then have "unat a + unat b < 2 ^ LENGTH(64)" using assms by (rule le_less_trans [rotated])
  then show ?thesis by (simp only: unat_add_lem)
qed

lemma glBufferSubData_vec4f_in_range:
  fixes startIndex count :: "64 word"
  assumes fit: "16 * length buf < 2 ^ 63"
    and inr: "unat startIndex + unat count \<le> length buf"
  shows "glBufferSubData_vec4f (startIndex * sizeof_vec4f) (count * sizeof_vec4f) color buf =
     Inr (map (\<lambda>i. if unat startIndex \<le> i \<and> i < unat startIndex + unat count
                    then color (i - unat startIndex) else buf ! i)
            [0..<length buf])"
proof -
  have s: "16 * unat startIndex < 2 ^ 63" and c: "16 * unat count < 2 ^ 63"
    using fit inr by linarith+
  have us: "unat (startIndex * 16) = 16 * unat startIndex"
    and uc: "unat (count * 16) = 16 * unat count"
    using s c by (simp_all only: unat_times_16)
  have ss: "sint (startIndex * 16) = int (16 * unat startIndex)"
    and sc: "sint (count * 16) = int (16 * unat count)"
    using s c us uc by (simp_all only: sint_nonneg_64)
  have ok: "\<not> (sint (startIndex * 16) < 0 \<or> sint (count * 16) < 0
              \<or> int (16 * length buf) < sint (startIndex * 16) + sint (count * 16))"
    unfolding ss sc using inr by linarith
  show ?thesis
    unfolding glBufferSubData_vec4f_def sizeof_vec4f_def
    using ok by (simp only: if_False us uc) simp
qed

lemma UploadShipPointColorRange_in_range:
  assumes alloc: "PointColorVBO_allocated s"
    and inr: "unat startIndex + unat count \<le> unat (mPointCount s)"
  shows "UploadShipPointColorRange color startIndex count s =
     Inr ((glBindBuffer GL_ARRAY_BUFFER PointColorVBO s)
            \<lparr>mPointColorVBO :=
               map (\<lambda>i. if unat startIndex \<le> i \<and> i < unat startIndex + unat count
                        then color (i - unat startIndex) else mPointColorVBO s ! i)
                 [0..<length (mPointColorVBO s)]\<rparr>)"
proof -
  from alloc have len: "length (mPointColorVBO s) = unat (mPointCount s)"
    and fit: "16 * length (mPointColorVBO s) < 2 ^ 63"
    by (simp_all add: PointColorVBO_allocated_def)
  have "unat (startIndex + count) = unat startIndex + unat count"
    using inr by (rule unat_plus_no_wrap)
  then have le: "startIndex + count \<le> mPointCount s"
    using inr by (simp add: word_le_nat_alt)
  have inr': "unat startIndex + unat count \<le> length (mPointColorVBO s)"
    using inr len by simp
  show ?thesis
    using le by (simp add: UploadShipPointColorRange_def
      glBufferSubData_vec4f_in_range [OF fit inr'])
qed

lemma UploadShipPointColorRange_out_of_range:
  assumes out: "unat (mPointCount s) < unat startIndex + unat count"
    and fit: "16 * unat count < 2 ^ 63"
  shows "\<exists>e. UploadShipPointColorRange color startIndex count s = Inl e"
proof (cases "startIndex + count \<le> mPointCount s")
  case False
  then show ?thesis by (simp add: UploadShipPointColorRange_def)
next
  case True
  have wrap: "2 ^ 64 \<le> unat startIndex + unat count"
  proof (rule ccontr)
    assume "\<not> 2 ^ 64 \<le> unat startIndex + unat count"
    then have "unat startIndex + unat count < 2 ^ LENGTH(64)" by simp
    then have "unat (startIndex + count) = unat startIndex + unat count"
      by (simp only: unat_add_lem)
    then show False using True out by (simp add: word_le_nat_alt)
  qed
  have "sint (startIndex * 16) < 0"
    using wrap fit by (rule wrapped_offset_negative)
  then have "glBufferSubData_vec4f (startIndex * sizeof_vec4f) (count * sizeof_vec4f)
               color (mPointColorVBO s) = Inl OpenGLError"
    by (simp add: glBufferSubData_vec4f_def sizeof_vec4f_def)
  then show ?thesis
    using True by (simp add: UploadShipPointColorRange_def)
qed

lemma exampleShip_allocated: "PointColorVBO_allocated exampleShip"
  by (simp add: PointColorVBO_allocated_def exampleShip_def)

text \<open>
  C8, as the code has it. The context is as the constructor leaves it: the colour buffer
  has one slot per point. For every start and count with start + count \<le> pointCount,
  \<^verbatim>\<open>UploadShipPointColorRange\<close> returns, and the colour buffer afterwards holds the
  supplied colours in the slots from start up to start + count and its former content in
  every other slot. A call with start + count > pointCount fails at the assertion
  whenever the \<^verbatim>\<open>size_t\<close> sum does not wrap around, and fails, at the assertion or at
  the range check of OpenGL, whenever the colour array of count elements is smaller than
  \<open>2\<^sup>6\<^sup>3\<close> bytes.
\<close>

theorem UploadShipPointColorRange_replaces_range:
  assumes alloc: "PointColorVBO_allocated s"
  shows "(unat startIndex + unat count \<le> unat (mPointCount s) \<longrightarrow>
            (\<exists>s'. UploadShipPointColorRange color startIndex count s = Inr s'
               \<and> length (mPointColorVBO s') = length (mPointColorVBO s)
               \<and> (\<forall>i < length (mPointColorVBO s).
                     mPointColorVBO s' ! i =
                       (if unat startIndex \<le> i \<and> i < unat startIndex + unat count
                        then color (i - unat startIndex) else mPointColorVBO s ! i))))
       \<and> (unat (mPointCount s) < unat startIndex + unat count \<and> 16 * unat count < 2 ^ 63 \<longrightarrow>
            (\<exists>e. UploadShipPointColorRange color startIndex count s = Inl e))
       \<and> (unat (mPointCount s) < unat startIndex + unat count
            \<and> unat startIndex + unat count < 2 ^ 64 \<longrightarrow>
            UploadShipPointColorRange color startIndex count s = Inl AssertionFailure)"
proof (intro conjI impI)
  assume inr: "unat startIndex + unat count \<le> unat (mPointCount s)"
  show "\<exists>s'. UploadShipPointColorRange color startIndex count s = Inr s'
          \<and> length (mPointColorVBO s') = length (mPointColorVBO s)
          \<and> (\<forall>i < length (mPointColorVBO s).
                mPointColorVBO s' ! i =
                  (if unat startIndex \<le> i \<and> i < unat startIndex + unat count
                   then color (i - unat startIndex) else mPointColorVBO s ! i))"
    by (simp add: UploadShipPointColorRange_in_range [OF alloc inr])
next
  assume "unat (mPointCount s) < unat startIndex + unat count \<and> 16 * unat count < 2 ^ 63"
  then show "\<exists>e. UploadShipPointColorRange color startIndex count s = Inl e"
    using UploadShipPointColorRange_out_of_range by blast
next
  assume out: "unat (mPointCount s) < unat startIndex + unat count
                 \<and> unat startIndex + unat count < 2 ^ 64"
  then have "unat startIndex + unat count < 2 ^ LENGTH(64)" by simp
  then have "unat (startIndex + count) = unat startIndex + unat count"
    by (simp only: unat_add_lem)
  then have "\<not> startIndex + count \<le> mPointCount s"
    using out by (simp add: word_le_nat_alt)
  then show "UploadShipPointColorRange color startIndex count s = Inl AssertionFailure"
    by (simp add: UploadShipPointColorRange_def)
qed

theorem UploadShipPointColorRange_replaces_range_witness:
  "PointColorVBO_allocated exampleShip
   \<and> unat (1 :: size_t) + unat (2 :: size_t) \<le> unat (mPointCount exampleShip)
   \<and> (\<exists>s'. UploadShipPointColorRange exampleColors 1 2 exampleShip = Inr s'
         \<and> mPointColorVBO s' ! 0 = (0, 0, 0, 0)
         \<and> mPointColorVBO s' ! 1 = exampleColors 0
         \<and> mPointColorVBO s' ! 2 = exampleColors 1
         \<and> mPointColorVBO s' ! 3 = (0, 0, 0, 0))
   \<and> unat (mPointCount exampleShip) < unat (3 :: size_t) + unat (2 :: size_t)
   \<and> UploadShipPointColorRange exampleColors 3 2 exampleShip = Inl AssertionFailure"
proof -
  have in_range: "unat (1 :: size_t) + unat (2 :: size_t) \<le> unat (mPointCount exampleShip)"
    and out_of_range: "unat (mPointCount exampleShip) < unat (3 :: size_t) + unat (2 :: size_t)
       \<and> unat (3 :: size_t) + unat (2 :: size_t) < 2 ^ 64"
    by (simp_all add: exampleShip_def)
  from UploadShipPointColorRange_replaces_range [OF exampleShip_allocated, of 1 2 exampleColors]
    in_range
  obtain s' where s': "UploadShipPointColorRange exampleColors 1 2 exampleShip = Inr s'"
    and slots: "\<forall>i < length (mPointColorVBO exampleShip).
       mPointColorVBO s' ! i =
         (if unat (1 :: size_t) \<le> i \<and> i < unat (1 :: size_t) + unat (2 :: size_t)
          then exampleColors (i - unat (1 :: size_t)) else mPointColorVBO exampleShip ! i)"
    by blast
  have len: "length (mPointColorVBO exampleShip) = 4"
    by (simp add: exampleShip_def)
  have "mPointColorVBO s' ! 0 = (0, 0, 0, 0)" "mPointColorVBO s' ! 1 = exampleColors 0"
    "mPointColorVBO s' ! 2 = exampleColors 1" "mPointColorVBO s' ! 3 = (0, 0, 0, 0)"
    using slots [rule_format, of 0] slots [rule_format, of 1]
      slots [rule_format, of 2] slots [rule_format, of 3] len
    by (simp_all add: exampleShip_def)
  moreover have "UploadShipPointColorRange exampleColors 3 2 exampleShip = Inl AssertionFailure"
    using UploadShipPointColorRange_replaces_range [OF exampleShip_allocated, of 3 2 exampleColors]
      out_of_range by blast
  ultimately show ?thesis
    using s' in_range out_of_range exampleShip_allocated by blast
qed


lemma wrapped_example_sum: "(17293822569102704640 :: size_t) + 1152921504606846977 = 1"
  by simp

lemma wrapped_example_offset: "(17293822569102704640 :: size_t) * 16 = 0"
  by simp

lemma wrapped_example_size: "(1152921504606846977 :: size_t) * 16 = 16"
  by simp

lemma wrapped_example_exceeds:
  "unat (mPointCount exampleShip)
     < unat (17293822569102704640 :: size_t) + unat (1152921504606846977 :: size_t)"
  by (simp add: exampleShip_def)

lemma glBufferSubData_vec4f_example_slot0:
  "glBufferSubData_vec4f 0 16 exampleColors (mPointColorVBO exampleShip)
     = Inr [exampleColors 0, (0, 0, 0, 0), (0, 0, 0, 0), (0, 0, 0, 0)]"
  by (simp add: glBufferSubData_vec4f_def exampleShip_def upt_conv_Cons)

text \<open>
  C8 as stated fails where the \<^verbatim>\<open>size_t\<close> sum wraps around. On the example ship of
  4 points, start \<open>2\<^sup>6\<^sup>4 - 2\<^sup>6\<^sup>0\<close> and count \<open>2\<^sup>6\<^sup>0 + 1\<close> exceed the point count, but
  their sum wraps to 1, the assertion passes, the byte offset wraps to 0 and the byte
  size to 16: the call returns and has overwritten slot 0.
\<close>

theorem UploadShipPointColorRange_wrapped_sum_returns:
  "unat (mPointCount exampleShip)
     < unat (17293822569102704640 :: size_t) + unat (1152921504606846977 :: size_t)
   \<and> UploadShipPointColorRange exampleColors 17293822569102704640 1152921504606846977 exampleShip
       = Inr ((glBindBuffer GL_ARRAY_BUFFER PointColorVBO exampleShip)
                \<lparr>mPointColorVBO := [exampleColors 0, (0, 0, 0, 0), (0, 0, 0, 0), (0, 0, 0, 0)]\<rparr>)"
proof -
  have le: "(17293822569102704640 :: size_t) + 1152921504606846977 \<le> mPointCount exampleShip"
    by (simp only: wrapped_example_sum) (simp add: exampleShip_def)
  have gl: "glBufferSubData_vec4f (17293822569102704640 * sizeof_vec4f)
              (1152921504606846977 * sizeof_vec4f) exampleColors (mPointColorVBO exampleShip)
            = Inr [exampleColors 0, (0, 0, 0, 0), (0, 0, 0, 0), (0, 0, 0, 0)]"
    by (simp only: sizeof_vec4f_def wrapped_example_offset wrapped_example_size
          glBufferSubData_vec4f_example_slot0)
  have "UploadShipPointColorRange exampleColors 17293822569102704640 1152921504606846977 exampleShip
       = Inr ((glBindBuffer GL_ARRAY_BUFFER PointColorVBO exampleShip)
                \<lparr>mPointColorVBO := [exampleColors 0, (0, 0, 0, 0), (0, 0, 0, 0), (0, 0, 0, 0)]\<rparr>)"
    unfolding UploadShipPointColorRange_def
    by (simp only: le gl not_True_eq_False if_False sum.case)
  with wrapped_example_exceeds show ?thesis by (rule conjI)
qed


section \<open>Depth of the layers\<close>

lemma depthOf_shipOrthoMatrix:
  "depthOf (shipOrthoMatrix s layer) planeId =
     1 + (- 2) * of_int ((static_cast_int (mShipId s) * (static_cast_int (mMaxMaxPlaneId s) + 1)
                        + planeId) * 6 + layer)
           / of_int (static_cast_int (mShipCount s) * (static_cast_int (mMaxMaxPlaneId s) + 1) * 6)"
  by (simp only: shipOrthoMatrix_def depthOf.simps ShipRegionZStart_def ShipRegionZWidth_def
        NLayers_def)

lemma depth_strict:
  fixes n x y :: int
  assumes "0 < n" and "x < y"
  shows "(1 :: rat) + (- 2) * of_int y / of_int n < 1 + (- 2) * of_int x / of_int n"
proof -
  have "(of_int x :: rat) / of_int n < of_int y / of_int n"
    using assms by (simp add: divide_strict_right_mono)
  then show ?thesis by simp
qed

lemma slot_lex:
  fixes base p p' l l' :: int
  assumes "0 \<le> l" "l < 6" "0 \<le> l'" "l' < 6"
    and "p < p' \<or> (p = p' \<and> l < l')"
  shows "(base + p) * 6 + l < (base + p') * 6 + l'"
  using assms by (auto simp: algebra_simps)

lemma depth_bounds:
  fixes n x :: int
  assumes "0 \<le> x" and "x < n"
  shows "(- 1 :: rat) < 1 + (- 2) * of_int x / of_int n \<and> 1 + (- 2) * of_int x / of_int n \<le> (1 :: rat)"
proof -
  have n: "(0 :: rat) < of_int n" using assms by simp
  have "(of_int x :: rat) / of_int n < 1"
    using assms n by (simp add: divide_less_eq)
  moreover have "(0 :: rat) \<le> of_int x / of_int n"
    using assms n by simp
  ultimately show ?thesis by simp
qed

lemma OrthoMatrix_UpdateOrthoMatrices:
  "OrthoMatrix (mShaderManager (UpdateOrthoMatrices s)) =
     (OrthoMatrix (mShaderManager s))
       (ShipRopes \<mapsto> shipOrthoMatrix s 0,
        ShipTrianglesColor \<mapsto> shipOrthoMatrix s 1,
        ShipTrianglesTexture \<mapsto> shipOrthoMatrix s 1,
        ShipStressedSprings \<mapsto> shipOrthoMatrix s 2,
        ShipPointsColor \<mapsto> shipOrthoMatrix s 3,
        ShipGenericTextures \<mapsto> shipOrthoMatrix s 4,
        ShipVectors \<mapsto> shipOrthoMatrix s 5)"
  by (simp add: UpdateOrthoMatrices_def SetProgramParameter_OrthoMatrix_def
        ActivateProgram_def Let_def)

lemma slot_range:
  fixes ship ships m p l :: int
  assumes "0 \<le> ship" "ship < ships" "0 \<le> m" "0 \<le> p" "p \<le> m" "0 \<le> l" "l < 6"
  shows "0 \<le> (ship * (m + 1) + p) * 6 + l \<and> (ship * (m + 1) + p) * 6 + l < ships * (m + 1) * 6"
proof -
  have a: "0 \<le> ship * (m + 1)" using assms by simp
  have "(ship + 1) * (m + 1) \<le> ships * (m + 1)"
    using assms by (intro mult_right_mono) simp_all
  then have b: "ship * (m + 1) + m + 1 \<le> ships * (m + 1)"
    by (simp add: algebra_simps)
  show ?thesis using a b assms by (auto simp: algebra_simps)
qed

lemma static_cast_int_example:
  "static_cast_int (mShipId exampleShipAtPlane5) = 0"
  "static_cast_int (mShipCount exampleShipAtPlane5) = 1"
  "static_cast_int (mMaxMaxPlaneId exampleShipAtPlane5) = 5"
  by (simp_all add: exampleShipAtPlane5_def exampleShip_def static_cast_int_def)

text \<open>
  C9. \<^verbatim>\<open>UpdateOrthoMatrices\<close> hands the matrix of layer 0 to the rope program, of
  layer 1 to both triangle programs (which also draw the springs), of layer 2 to the
  stressed-spring program, of layer 3 to the point program, of layer 4 to the
  generic-texture program and of layer 5 to the vector program. With the depth slots
  modelled from the specification, for a ship index within the ship count, layers 0 to
  5 and planes 0 to the max-max plane id: two distinct combinations of layer and plane
  get different depths; the depth decreases strictly from plane to plane and, within a
  plane, from layer to layer, that is from the far end of the region (its start, 1)
  towards the near end (\<open>-1\<close>), so the ropes of a plane are nearest to far and its
  vectors nearest to near; all depths lie within the one shared region.
\<close>

theorem depth_layers_distinct_and_ordered:
  fixes layer layer' planeId planeId' :: int
  assumes ship: "0 \<le> static_cast_int (mShipId s)"
      "static_cast_int (mShipId s) < static_cast_int (mShipCount s)"
    and maxPlane: "0 \<le> static_cast_int (mMaxMaxPlaneId s)"
    and layers: "0 \<le> layer" "layer < 6" "0 \<le> layer'" "layer' < 6"
    and planes: "0 \<le> planeId" "planeId \<le> static_cast_int (mMaxMaxPlaneId s)"
      "0 \<le> planeId'" "planeId' \<le> static_cast_int (mMaxMaxPlaneId s)"
  shows "map (OrthoMatrix (mShaderManager (UpdateOrthoMatrices s)))
           [ShipRopes, ShipTrianglesColor, ShipTrianglesTexture, ShipStressedSprings,
            ShipPointsColor, ShipGenericTextures, ShipVectors]
         = map (\<lambda>l. Some (shipOrthoMatrix s l)) [0, 1, 1, 2, 3, 4, 5]
     \<and> ((layer, planeId) \<noteq> (layer', planeId') \<longrightarrow>
          depthOf (shipOrthoMatrix s layer) planeId \<noteq> depthOf (shipOrthoMatrix s layer') planeId')
     \<and> (planeId < planeId' \<or> (planeId = planeId' \<and> layer < layer') \<longrightarrow>
          depthOf (shipOrthoMatrix s layer') planeId' < depthOf (shipOrthoMatrix s layer) planeId)
     \<and> ShipRegionZStart + ShipRegionZWidth < depthOf (shipOrthoMatrix s layer) planeId
     \<and> depthOf (shipOrthoMatrix s layer) planeId \<le> ShipRegionZStart"
proof (intro conjI impI)
  show "map (OrthoMatrix (mShaderManager (UpdateOrthoMatrices s)))
           [ShipRopes, ShipTrianglesColor, ShipTrianglesTexture, ShipStressedSprings,
            ShipPointsColor, ShipGenericTextures, ShipVectors]
         = map (\<lambda>l. Some (shipOrthoMatrix s l)) [0, 1, 1, 2, 3, 4, 5]"
    by (simp add: OrthoMatrix_UpdateOrthoMatrices)
next
  let ?n = "static_cast_int (mShipCount s) * (static_cast_int (mMaxMaxPlaneId s) + 1) * 6"
  let ?base = "static_cast_int (mShipId s) * (static_cast_int (mMaxMaxPlaneId s) + 1)"
  have range: "0 \<le> (?base + planeId) * 6 + layer \<and> (?base + planeId) * 6 + layer < ?n"
    using ship maxPlane planes(1,2) layers(1,2) by (intro slot_range) simp_all
  then have n: "0 < ?n" by linarith
  have lex: "depthOf (shipOrthoMatrix s l') p' < depthOf (shipOrthoMatrix s l) p"
    if "0 \<le> l" "l < 6" "0 \<le> l'" "l' < 6" "p < p' \<or> (p = p' \<and> l < l')" for l l' p p' :: int
    unfolding depthOf_shipOrthoMatrix
    using n slot_lex [OF that] by (rule depth_strict)
  {
    assume "planeId < planeId' \<or> (planeId = planeId' \<and> layer < layer')"
    then show "depthOf (shipOrthoMatrix s layer') planeId' < depthOf (shipOrthoMatrix s layer) planeId"
      using layers by (intro lex)
  next
    assume ne: "(layer, planeId) \<noteq> (layer', planeId')"
    then consider "planeId < planeId' \<or> (planeId = planeId' \<and> layer < layer')"
      | "planeId' < planeId \<or> (planeId' = planeId \<and> layer' < layer)"
      by auto linarith+
    then show "depthOf (shipOrthoMatrix s layer) planeId \<noteq> depthOf (shipOrthoMatrix s layer') planeId'"
    proof cases
      case 1
      then have "depthOf (shipOrthoMatrix s layer') planeId' < depthOf (shipOrthoMatrix s layer) planeId"
        using layers by (intro lex)
      then show ?thesis by simp
    next
      case 2
      then have "depthOf (shipOrthoMatrix s layer) planeId < depthOf (shipOrthoMatrix s layer') planeId'"
        using layers by (intro lex)
      then show ?thesis by simp
    qed
  next
    show "ShipRegionZStart + ShipRegionZWidth < depthOf (shipOrthoMatrix s layer) planeId"
      unfolding depthOf_shipOrthoMatrix ShipRegionZStart_def ShipRegionZWidth_def
      using depth_bounds [of "(?base + planeId) * 6 + layer" ?n] range by simp
  next
    show "depthOf (shipOrthoMatrix s layer) planeId \<le> ShipRegionZStart"
      unfolding depthOf_shipOrthoMatrix ShipRegionZStart_def
      using depth_bounds [of "(?base + planeId) * 6 + layer" ?n] range by simp
  }
qed

theorem depth_layers_distinct_and_ordered_witness:
  "depthOf (shipOrthoMatrix exampleShipAtPlane5 1) 3 < depthOf (shipOrthoMatrix exampleShipAtPlane5 4) 2
   \<and> depthOf (shipOrthoMatrix exampleShipAtPlane5 4) 2 = 1 / 9
   \<and> depthOf (shipOrthoMatrix exampleShipAtPlane5 1) 3 = - 1 / 18
   \<and> OrthoMatrix (mShaderManager (UpdateOrthoMatrices exampleShipAtPlane5)) ShipRopes
       = Some (shipOrthoMatrix exampleShipAtPlane5 0)"
proof -
  have "depthOf (shipOrthoMatrix exampleShipAtPlane5 1) 3 < depthOf (shipOrthoMatrix exampleShipAtPlane5 4) 2"
    and "OrthoMatrix (mShaderManager (UpdateOrthoMatrices exampleShipAtPlane5)) ShipRopes
       = Some (shipOrthoMatrix exampleShipAtPlane5 0)"
    using depth_layers_distinct_and_ordered [of exampleShipAtPlane5 4 1 2 3]
    by (simp_all add: static_cast_int_example)
  moreover have "depthOf (shipOrthoMatrix exampleShipAtPlane5 4) 2 = 1 / 9"
    "depthOf (shipOrthoMatrix exampleShipAtPlane5 1) 3 = - 1 / 18"
    by (simp_all add: depthOf_shipOrthoMatrix static_cast_int_example)
  ultimately show ?thesis by simp
qed

end
